theory Spec2Isabelle
  imports Complex_Main "HOL-Library.Word"
begin

section \<open>Conventions of the embedding\<close>

text \<open>
  The theory embeds the network core of the hexapod client: \<^verbatim>\<open>thread_safe.py\<close>,
  \<^verbatim>\<open>connections.py\<close>, \<^verbatim>\<open>video.py\<close>, \<^verbatim>\<open>network_manager.py\<close>, the \<^verbatim>\<open>retry\<close>
  decorator of \<^verbatim>\<open>utils.py\<close> and, from \<^verbatim>\<open>Main.py\<close>, the guard of
  \<^verbatim>\<open>NetworkManager.connect\<close> and the command reader \<^verbatim>\<open>receive_instruction\<close>.

  \<^item> Objects are records, passed and returned by value. A method that mutates
    \<^verbatim>\<open>self\<close> returns the updated record.
  \<^item> An exception is a value of the datatype \<open>error\<close>; a method that may raise
    returns \<open>error + 'a\<close> (\<open>Inl\<close> the exception) or \<open>error option\<close>
    (\<open>None\<close>: returned normally) next to the state it leaves behind.
  \<^item> The modules are taken to load: the names they import exist. A name that a module
    uses without importing or defining it raises NameError where it is evaluated:
    \<^verbatim>\<open>threading\<close> in \<^verbatim>\<open>connections.py\<close> (both constructors) and \<^verbatim>\<open>ConnectionState\<close> in
    \<^verbatim>\<open>video.py\<close> (in \<^verbatim>\<open>VideoStream.start\<close>).
  \<^item> Each function is the sequential behaviour of one call: no other thread changes
    the object while the call runs. Log messages are not modelled.
  \<^item> Delays and timeouts are Python floats; they are modelled as \<open>real\<close> (no NaN, no
    infinity). Texts are ASCII.
\<close>

subsection \<open>Exceptions (\<^verbatim>\<open>utils/exceptions.py\<close> and the built-in ones the code meets)\<close>

datatype error =
    RobotError
  | ConnectionError
  | CommandError
  | NetworkError
  | TimeoutError
  | InvalidStateError
  | OSError
  | AttributeError
  | IndexError
  | TypeError
  | NameError
  | ValueError
  | OverflowError

text \<open>\<open>isinstance_of e cls\<close>: an exception of class \<open>e\<close> is caught by \<^verbatim>\<open>except cls\<close>.
  The six classes of \<^verbatim>\<open>exceptions.py\<close> derive from \<^verbatim>\<open>RobotError\<close>; \<^verbatim>\<open>socket.error\<close>
  is \<^verbatim>\<open>OSError\<close>.\<close>

fun isinstance_of :: "error \<Rightarrow> error \<Rightarrow> bool" where
  "isinstance_of e RobotError =
     (e = RobotError \<or> e = ConnectionError \<or> e = CommandError \<or> e = NetworkError
      \<or> e = TimeoutError \<or> e = InvalidStateError)"
| "isinstance_of e cls = (e = cls)"

section \<open>\<^verbatim>\<open>thread_safe.py\<close>: ThreadSafeValue\<close>

text \<open>
  A callback is a function of the old and the new value that acts on the state \<open>'w\<close> of
  its observer and either returns or raises an instance of \<^verbatim>\<open>Exception\<close>. (A callback
  that calls back into the same ThreadSafeValue is outside this model.)

  \<open>tsv_lock\<close> is the recursion depth at which the calling thread holds the value's
  \<^verbatim>\<open>RLock\<close>: \<^verbatim>\<open>with self._lock:\<close> raises it by one for its body.
  The trace of a call lists what happened, in order: \<open>Invoked k old new d\<close> is the call
  \<^verbatim>\<open>callback(old_value, new_value)\<close> of the callback at position \<open>k\<close>, made while the
  lock was held at depth \<open>d\<close>; \<open>LoggedError k\<close> is the \<^verbatim>\<open>logging.error\<close> of the handler
  that caught what callback \<open>k\<close> raised.
\<close>

datatype cb_result = CbReturns | CbRaises

datatype 'a tsv_event = Invoked nat 'a 'a nat | LoggedError nat

record ('a, 'w) ThreadSafeValue =
  tsv_value :: 'a
  tsv_name :: string
  tsv_lock :: nat
  tsv_callbacks :: "('a \<Rightarrow> 'a \<Rightarrow> 'w \<Rightarrow> cb_result \<times> 'w) list"

text \<open>The loop of \<^verbatim>\<open>_notify_observers\<close> over the copied callback list, from position \<open>k\<close>:
  \<^verbatim>\<open>try: callback(old_value, new_value)  except Exception as e: logging.error(...)\<close>.\<close>

fun notify_loop ::
  "nat \<Rightarrow> 'a \<Rightarrow> 'a \<Rightarrow> nat \<Rightarrow> ('a \<Rightarrow> 'a \<Rightarrow> 'w \<Rightarrow> cb_result \<times> 'w) list \<Rightarrow> 'w
   \<Rightarrow> 'w \<times> 'a tsv_event list" where
  "notify_loop d old new k [] w = (w, [])"
| "notify_loop d old new k (cb # cbs) w =
     (case cb old new w of
        (CbReturns, w') \<Rightarrow>
          (case notify_loop d old new (Suc k) cbs w' of
             (w'', es) \<Rightarrow> (w'', Invoked k old new d # es))
      | (CbRaises, w') \<Rightarrow>
          (case notify_loop d old new (Suc k) cbs w' of
             (w'', es) \<Rightarrow> (w'', Invoked k old new d # LoggedError k # es)))"

text \<open>\<^verbatim>\<open>_notify_observers\<close>: takes the lock once more around the loop.\<close>

definition notify_observers ::
  "'a \<Rightarrow> 'a \<Rightarrow> ('a, 'w) ThreadSafeValue \<Rightarrow> 'w \<Rightarrow> 'w \<times> 'a tsv_event list" where
  "notify_observers old_value new_value tsv w =
     notify_loop (tsv_lock tsv + 1) old_value new_value 0 (tsv_callbacks tsv) w"

text \<open>The getter and the setter of the property \<^verbatim>\<open>value\<close>. The setter calls
  \<^verbatim>\<open>_notify_observers\<close> inside its own \<^verbatim>\<open>with self._lock:\<close> block; the lock is back at
  its entry depth when the setter returns.\<close>

definition get_value :: "('a, 'w) ThreadSafeValue \<Rightarrow> 'a" where
  "get_value tsv = tsv_value tsv"

definition set_value ::
  "'a \<Rightarrow> ('a, 'w) ThreadSafeValue \<Rightarrow> 'w
   \<Rightarrow> error option \<times> ('a, 'w) ThreadSafeValue \<times> 'w \<times> 'a tsv_event list" where
  "set_value new_value tsv w =
     (let held = tsv\<lparr>tsv_lock := tsv_lock tsv + 1\<rparr> in
      if tsv_value held \<noteq> new_value then
        (let old_value = tsv_value held;
             stored = held\<lparr>tsv_value := new_value\<rparr>
         in case notify_observers old_value new_value stored w of
              (w', es) \<Rightarrow> (None, stored\<lparr>tsv_lock := tsv_lock tsv\<rparr>, w', es))
      else (None, tsv, w, []))"

text \<open>The calls made to callbacks, as (position, old, new), and the lock depths at
  which they were made.\<close>

fun invocations :: "'a tsv_event list \<Rightarrow> (nat \<times> 'a \<times> 'a) list" where
  "invocations [] = []"
| "invocations (Invoked k old new d # es) = (k, old, new) # invocations es"
| "invocations (LoggedError k # es) = invocations es"

fun lock_depths :: "'a tsv_event list \<Rightarrow> nat list" where
  "lock_depths [] = []"
| "lock_depths (Invoked k old new d # es) = d # lock_depths es"
| "lock_depths (LoggedError k # es) = lock_depths es"

section \<open>\<^verbatim>\<open>connections.py\<close>: the two Connection variants\<close>

text \<open>
  Modelled from the spec: \<^verbatim>\<open>interfaces.py\<close>, which declares the enumeration
  \<^verbatim>\<open>ConnectionState\<close> (and the abstract classes \<^verbatim>\<open>IConnection\<close>, \<^verbatim>\<open>IVideoStream\<close>), is not
  among the sources. The spec lists the five states below; \<^verbatim>\<open>network_manager.py\<close> and
  \<^verbatim>\<open>connections.py\<close> use the first four.
\<close>

datatype ConnectionState = DISCONNECTED | CONNECTING | CONNECTED | DISCONNECTING | ERROR

type_synonym bytes = "8 word list"

subsection \<open>The operating system's socket\<close>

text \<open>
  What the code is given by \<^verbatim>\<open>socket.socket\<close> is an environment, not code of the
  repository. A socket is described by whether \<^verbatim>\<open>connect\<close> on it will succeed and by what
  the successive calls of \<^verbatim>\<open>recv\<close> will find: bytes that have arrived (\<open>Data\<close>), nothing
  within the timeout (\<open>Quiet\<close>), or a failure of the transport (\<open>Broken\<close>). When
  nothing more is scripted the peer has closed the stream. \<^verbatim>\<open>recv(size)\<close> returns at most
  \<open>size\<close> of the bytes that have arrived and leaves the rest for the next call; it
  returns the empty byte string at the end of the stream. Sizes are natural numbers:
  every caller passes a positive size.
\<close>

datatype recv_event = Data bytes | Quiet | Broken

datatype recv_result = RecvBytes bytes | RecvTimeout | RecvOSError

record sock =
  sock_connectable :: bool
  sock_timeout :: "real option"
  sock_pending :: "recv_event list"

definition settimeout :: "real option \<Rightarrow> sock \<Rightarrow> sock" where
  "settimeout timeout sk = (case timeout of None \<Rightarrow> sk | Some t \<Rightarrow> sk\<lparr>sock_timeout := Some t\<rparr>)"

definition sock_recv :: "nat \<Rightarrow> sock \<Rightarrow> recv_result \<times> sock" where
  "sock_recv size' sk =
     (case sock_pending sk of
        [] \<Rightarrow> (RecvBytes [], sk)
      | Data bs # rest \<Rightarrow>
          (RecvBytes (take size' bs),
           sk\<lparr>sock_pending := (if drop size' bs = [] then rest else Data (drop size' bs) # rest)\<rparr>)
      | Quiet # rest \<Rightarrow> (RecvTimeout, sk\<lparr>sock_pending := rest\<rparr>)
      | Broken # rest \<Rightarrow> (RecvOSError, sk\<lparr>sock_pending := rest\<rparr>))"

subsection \<open>SocketConnection\<close>

record SocketConnection =
  s_sock :: "sock option"
  s_state :: ConnectionState
  s_host :: "string option"
  s_port :: "int option"
  s_timeout :: real

text \<open>
  What \<^verbatim>\<open>socket.connect((host, port))\<close> raises on its arguments, before anything goes to the
  network: TypeError for a host that contains a NUL character, OverflowError for a port
  outside 0..65535. Neither is an \<^verbatim>\<open>OSError\<close>.
\<close>

definition connect_argument_error :: "string \<Rightarrow> int \<Rightarrow> error option" where
  "connect_argument_error host port =
     (if CHR 0x00 \<in> set host then Some TypeError
      else if port < 0 \<or> 65535 < port then Some OverflowError
      else None)"

text \<open>
  \<^verbatim>\<open>SocketConnection.connect\<close>. Its handler catches \<^verbatim>\<open>(socket.error, OSError)\<close> only, so that
  these leave the method with the state still CONNECTING: the AttributeError of
  \<^verbatim>\<open>self._sock.setsockopt\<close> on a socket that is \<^verbatim>\<open>None\<close> (after \<^verbatim>\<open>close\<close>), the ValueError of
  \<^verbatim>\<open>settimeout\<close> on a negative timeout, and what \<^verbatim>\<open>socket.connect\<close> raises on its
  arguments. A connect that the network refuses or that times out is an \<^verbatim>\<open>OSError\<close>: the
  state goes back to DISCONNECTED and ConnectionError is raised.
\<close>

definition socket_connect ::
  "string \<Rightarrow> int \<Rightarrow> real \<Rightarrow> SocketConnection \<Rightarrow> error option \<times> SocketConnection" where
  "socket_connect host port timeout c =
     (if s_state c = CONNECTED then (None, c)
      else
        (let c1 = c\<lparr>s_state := CONNECTING, s_host := Some host, s_port := Some port,
                    s_timeout := timeout\<rparr>
         in case s_sock c1 of
              None \<Rightarrow> (Some AttributeError, c1)
            | Some sk \<Rightarrow>
                if timeout < 0 then (Some ValueError, c1)
                else
                  (let sk1 = sk\<lparr>sock_timeout := Some timeout\<rparr>;
                       c2 = c1\<lparr>s_sock := Some sk1\<rparr>
                   in case connect_argument_error host port of
                        Some e \<Rightarrow> (Some e, c2)
                      | None \<Rightarrow>
                          if sock_connectable sk1
                          then (None, c2\<lparr>s_state := CONNECTED\<rparr>)
                          else (Some ConnectionError, c2\<lparr>s_state := DISCONNECTED\<rparr>))))"

text \<open>\<^verbatim>\<open>SocketConnection.close\<close> and \<^verbatim>\<open>disconnect\<close> (shutdown, then \<^verbatim>\<open>close\<close>; what the
  socket raises on the way is swallowed).\<close>

definition socket_close :: "SocketConnection \<Rightarrow> SocketConnection" where
  "socket_close c =
     (if s_state c = DISCONNECTED then c else c\<lparr>s_sock := None, s_state := DISCONNECTED\<rparr>)"

definition socket_disconnect :: "SocketConnection \<Rightarrow> SocketConnection" where
  "socket_disconnect c = (if s_state c = DISCONNECTED then c else socket_close c)"

text \<open>\<^verbatim>\<open>SocketConnection.receive\<close>:
  \<^verbatim>\<open>data = self._sock.recv(size); if not data: (state = DISCONNECTED; raise ConnectionError)\<close>,
  \<^verbatim>\<open>socket.timeout\<close> becomes TimeoutError, any other \<^verbatim>\<open>OSError\<close> becomes
  ConnectionError with the state set to DISCONNECTED.\<close>

definition socket_receive ::
  "nat \<Rightarrow> real option \<Rightarrow> SocketConnection \<Rightarrow> (error + bytes) \<times> SocketConnection" where
  "socket_receive size' timeout c =
     (if s_state c \<noteq> CONNECTED then (Inl ConnectionError, c)
      else case s_sock c of
             None \<Rightarrow> (Inl AttributeError, c)
           | Some sk \<Rightarrow>
               (case sock_recv size' (settimeout timeout sk) of
                  (RecvBytes data, sk') \<Rightarrow>
                    if data = []
                    then (Inl ConnectionError, c\<lparr>s_sock := Some sk', s_state := DISCONNECTED\<rparr>)
                    else (Inr data, c\<lparr>s_sock := Some sk'\<rparr>)
                | (RecvTimeout, sk') \<Rightarrow> (Inl TimeoutError, c\<lparr>s_sock := Some sk'\<rparr>)
                | (RecvOSError, sk') \<Rightarrow>
                    (Inl ConnectionError, c\<lparr>s_sock := Some sk', s_state := DISCONNECTED\<rparr>)))"

subsection \<open>DummyConnection\<close>

record DummyConnection =
  d_state :: ConnectionState
  d_buffer :: bytes

definition dummy_connect :: "string \<Rightarrow> int \<Rightarrow> DummyConnection \<Rightarrow> DummyConnection" where
  "dummy_connect host port c = c\<lparr>d_state := CONNECTED\<rparr>"

definition dummy_disconnect :: "DummyConnection \<Rightarrow> DummyConnection" where
  "dummy_disconnect c = c\<lparr>d_state := DISCONNECTED\<rparr>"

definition dummy_send ::
  "bytes \<Rightarrow> real option \<Rightarrow> DummyConnection \<Rightarrow> (error + int) \<times> DummyConnection" where
  "dummy_send data timeout c =
     (if d_state c \<noteq> CONNECTED then (Inl ConnectionError, c)
      else (Inr (int (length data)), c\<lparr>d_buffer := d_buffer c @ data\<rparr>))"

text \<open>\<^verbatim>\<open>DummyConnection.receive\<close>:
  \<^verbatim>\<open>result = bytes(self._buffer[:size]); self._buffer = self._buffer[size:]\<close>.
  The timeout is not used.\<close>

definition dummy_receive ::
  "nat \<Rightarrow> real option \<Rightarrow> DummyConnection \<Rightarrow> (error + bytes) \<times> DummyConnection" where
  "dummy_receive size' timeout c =
     (if d_state c \<noteq> CONNECTED then (Inl ConnectionError, c)
      else (Inr (take size' (d_buffer c)), c\<lparr>d_buffer := drop size' (d_buffer c)\<rparr>))"

definition dummy_close :: "DummyConnection \<Rightarrow> DummyConnection" where
  "dummy_close c = c\<lparr>d_state := DISCONNECTED, d_buffer := []\<rparr>"

subsection \<open>A connection of either class\<close>

datatype connection = Socket SocketConnection | Dummy DummyConnection

fun conn_state :: "connection \<Rightarrow> ConnectionState" where
  "conn_state (Socket c) = s_state c"
| "conn_state (Dummy c) = d_state c"

fun receive :: "nat \<Rightarrow> real option \<Rightarrow> connection \<Rightarrow> (error + bytes) \<times> connection" where
  "receive size' timeout (Socket c) =
     (case socket_receive size' timeout c of (r, c') \<Rightarrow> (r, Socket c'))"
| "receive size' timeout (Dummy c) =
     (case dummy_receive size' timeout c of (r, c') \<Rightarrow> (r, Dummy c'))"

text \<open>\<^verbatim>\<open>conn.connect(host, port)\<close> as the NetworkManager calls it, with its attribute
  \<^verbatim>\<open>_host\<close> (\<^verbatim>\<open>None\<close> until \<^verbatim>\<open>connect\<close> has stored a host) and, for the socket variant,
  the default timeout of 5 seconds. With \<^verbatim>\<open>None\<close> for the host, \<^verbatim>\<open>socket.connect\<close>
  raises TypeError, which \<^verbatim>\<open>SocketConnection.connect\<close> does not catch.\<close>

fun conn_connect :: "string option \<Rightarrow> int \<Rightarrow> connection \<Rightarrow> error option \<times> connection" where
  "conn_connect (Some host) port (Socket c) =
     (case socket_connect host port 5 c of (r, c') \<Rightarrow> (r, Socket c'))"
| "conn_connect None port (Socket c) =
     (if s_state c = CONNECTED then (None, Socket c)
      else case s_sock c of
             None \<Rightarrow>
               (Some AttributeError,
                Socket (c\<lparr>s_state := CONNECTING, s_host := None, s_port := Some port,
                          s_timeout := 5\<rparr>))
           | Some sk \<Rightarrow>
               (Some TypeError,
                Socket (c\<lparr>s_sock := Some (sk\<lparr>sock_timeout := Some 5\<rparr>),
                          s_state := CONNECTING, s_host := None, s_port := Some port,
                          s_timeout := 5\<rparr>)))"
| "conn_connect host port (Dummy c) =
     (None, Dummy (dummy_connect (case host of None \<Rightarrow> [] | Some h \<Rightarrow> h) port c))"

fun conn_disconnect :: "connection \<Rightarrow> connection" where
  "conn_disconnect (Socket c) = Socket (socket_disconnect c)"
| "conn_disconnect (Dummy c) = Dummy (dummy_disconnect c)"

fun conn_close :: "connection \<Rightarrow> connection" where
  "conn_close (Socket c) = Socket (socket_close c)"
| "conn_close (Dummy c) = Dummy (dummy_close c)"

section \<open>\<^verbatim>\<open>video.py\<close>: VideoStream\<close>

text \<open>
  \<open>vs_frame_ready\<close> is the \<^verbatim>\<open>threading.Event\<close>; \<open>vs_thread\<close> tells whether a reader
  thread object is held. \<open>vs_has_callback\<close> tells whether a frame callback was given
  and \<open>vs_callback_frames\<close> lists the frames handed to it, oldest first (what the
  callback raises is caught and logged, so nothing else of it reaches the stream).
\<close>

record VideoStream =
  vs_conn :: connection
  vs_has_callback :: bool
  vs_callback_frames :: "bytes list"
  vs_running :: bool
  vs_thread :: bool
  vs_current_frame :: "bytes option"
  vs_frame_ready :: bool

definition VideoStream_init :: "connection \<Rightarrow> bool \<Rightarrow> VideoStream" where
  "VideoStream_init connection has_callback =
     \<lparr>vs_conn = connection, vs_has_callback = has_callback, vs_callback_frames = [],
      vs_running = False, vs_thread = False, vs_current_frame = None,
      vs_frame_ready = False\<rparr>"

text \<open>
  \<^verbatim>\<open>start\<close>. When the stream is not running yet, the test
  \<^verbatim>\<open>self._conn.state != ConnectionState.CONNECTED\<close> evaluates the name \<^verbatim>\<open>ConnectionState\<close>,
  which \<^verbatim>\<open>video.py\<close> does not import: NameError. The statements after the test, which
  would set \<^verbatim>\<open>_running\<close> and start the reader thread, are never reached.
\<close>

definition start :: "VideoStream \<Rightarrow> error option \<times> VideoStream" where
  "start vs = (if vs_running vs then (None, vs) else (Some NameError, vs))"

definition stop :: "VideoStream \<Rightarrow> VideoStream" where
  "stop vs =
     (if \<not> vs_running vs then vs
      else vs\<lparr>vs_running := False, vs_frame_ready := True, vs_thread := False\<rparr>)"

text \<open>
  \<^verbatim>\<open>get_frame\<close>. \<^verbatim>\<open>Event.wait(timeout)\<close> returns at once when the event is set; when it is
  not set (and no other thread sets it meanwhile) it returns False after the timeout, or
  never when the timeout is \<^verbatim>\<open>None\<close>.
\<close>

datatype 'a call_result = Returns 'a | Blocks

definition get_frame :: "real option \<Rightarrow> VideoStream \<Rightarrow> bytes option call_result" where
  "get_frame timeout vs =
     (if \<not> vs_running vs then Returns None
      else if vs_frame_ready vs then Returns (vs_current_frame vs)
      else (case timeout of None \<Rightarrow> Blocks | Some t \<Rightarrow> Returns None))"

text \<open>\<^verbatim>\<open>struct.unpack('<L', header)[0]\<close> on a header of four bytes.\<close>

fun unpack_le :: "bytes \<Rightarrow> nat" where
  "unpack_le [] = 0"
| "unpack_le (b # bs) = unat b + 256 * unpack_le bs"

text \<open>
  The inner loop
  \<^verbatim>\<open>while remaining > 0 and self._running.value: chunk = receive(min(4096, remaining)) ...\<close>.
  It returns the frame data gathered when it ends, or the exception \<^verbatim>\<open>receive\<close> raised.
\<close>

function read_frame ::
  "bytes \<Rightarrow> int \<Rightarrow> bool \<Rightarrow> connection \<Rightarrow> (error + bytes) \<times> connection" where
  "read_frame frame_data remaining running conn =
     (if remaining > 0 \<and> running then
        (case receive (nat (min 4096 remaining)) (Some 1) conn of
           (Inl e, conn') \<Rightarrow> (Inl e, conn')
         | (Inr chunk, conn') \<Rightarrow>
             if chunk = [] then (Inr frame_data, conn')
             else read_frame (frame_data @ chunk) (remaining - int (length chunk)) running conn')
      else (Inr frame_data, conn))"
  by pat_completeness auto
termination
  by (relation "measure (\<lambda>(frame_data, remaining, running, conn). nat remaining)") auto

declare read_frame.simps [simp del]

text \<open>
  One pass through the body of \<^verbatim>\<open>while self._running.value:\<close> in \<^verbatim>\<open>_stream_loop\<close>.
  \<open>Continue\<close>: the loop goes on to test its condition again (after a \<^verbatim>\<open>continue\<close>, after
  a frame was stored, or after the handler for \<^verbatim>\<open>Exception\<close> slept 0.1 s);
  \<open>Break\<close>: the handler for ConnectionError cleared \<^verbatim>\<open>_running\<close> and left the loop.
\<close>

datatype loop_ctl = Continue | Break

definition stream_except :: "error \<Rightarrow> VideoStream \<Rightarrow> loop_ctl \<times> VideoStream" where
  "stream_except e vs =
     (if isinstance_of e ConnectionError then (Break, vs\<lparr>vs_running := False\<rparr>)
      else (Continue, vs))"

definition stream_iter :: "VideoStream \<Rightarrow> loop_ctl \<times> VideoStream" where
  "stream_iter vs =
     (case receive 4 (Some 1) (vs_conn vs) of
        (Inl e, c1) \<Rightarrow> stream_except e (vs\<lparr>vs_conn := c1\<rparr>)
      | (Inr header, c1) \<Rightarrow>
          (let vs1 = vs\<lparr>vs_conn := c1\<rparr> in
           if length header \<noteq> 4 then (Continue, vs1)
           else
             (let frame_length = unpack_le header in
              if frame_length = 0 \<or> frame_length > 10 * 1024 * 1024 then (Continue, vs1)
              else
                (case read_frame [] (int frame_length) (vs_running vs1) c1 of
                   (Inl e, c2) \<Rightarrow> stream_except e (vs1\<lparr>vs_conn := c2\<rparr>)
                 | (Inr frame_data, c2) \<Rightarrow>
                     (let vs2 = vs1\<lparr>vs_conn := c2\<rparr> in
                      if length frame_data \<noteq> frame_length then (Continue, vs2)
                      else
                        (Continue,
                         vs2\<lparr>vs_current_frame := Some frame_data, vs_frame_ready := True,
                             vs_callback_frames :=
                               (if vs_has_callback vs2
                                then vs_callback_frames vs2 @ [frame_data]
                                else vs_callback_frames vs2)\<rparr>))))))"

text \<open>
  \<^verbatim>\<open>_stream_loop\<close>. The loop may run for ever (a connection that keeps timing out), so
  the model counts the passes it may still make: \<open>None\<close> means that the loop has not ended
  within that many passes, \<open>Some vs\<close> that it has ended and left the stream as \<open>vs\<close>
  (the \<^verbatim>\<open>finally\<close> clause clears \<^verbatim>\<open>_running\<close>).
\<close>

fun stream_loop :: "nat \<Rightarrow> VideoStream \<Rightarrow> VideoStream option" where
  "stream_loop n vs =
     (if \<not> vs_running vs then Some (vs\<lparr>vs_running := False\<rparr>)
      else case n of
             0 \<Rightarrow> None
           | Suc m \<Rightarrow>
               (case stream_iter vs of
                  (Break, vs') \<Rightarrow> Some (vs'\<lparr>vs_running := False\<rparr>)
                | (Continue, vs') \<Rightarrow> stream_loop m vs'))"

declare stream_loop.simps [simp del]

section \<open>\<^verbatim>\<open>network_manager.py\<close>: NetworkManager\<close>

text \<open>
  \<^verbatim>\<open>commands.py\<close> (the class \<^verbatim>\<open>CommandProcessor\<close>) is not among the sources. The manager
  constructs a processor on the control connection, starts it, forwards \<^verbatim>\<open>send_command\<close>
  to it and stops it. The first three operations are a parameter of the model, over any
  type \<open>'cp\<close> of processors and any type \<open>'r\<close> of responses; of \<^verbatim>\<open>stop\<close> nothing
  reaches the manager, which catches what it raises and drops the processor. A
  processor, like a video stream, is taken to be a true value in \<^verbatim>\<open>if self._command_processor:\<close>.
\<close>

record ('cp, 'r) CommandProcessor_class =
  cp_init :: "connection \<Rightarrow> 'cp"
  cp_start :: "'cp \<Rightarrow> error option \<times> 'cp"
  cp_send_command :: "'cp \<Rightarrow> string \<Rightarrow> real option \<Rightarrow> (error + 'r) \<times> 'cp"

text \<open>
  The constructor argument \<^verbatim>\<open>connection_class\<close>, and the call
  \<^verbatim>\<open>self._connection_class()\<close>, given the socket the operating system would hand out.
  \<^verbatim>\<open>SocketConnection.__init__\<close> takes the socket and builds its state, then evaluates
  \<^verbatim>\<open>threading.RLock()\<close>; \<^verbatim>\<open>DummyConnection.__init__\<close> builds its state, then evaluates
  \<^verbatim>\<open>threading.RLock()\<close>. \<^verbatim>\<open>connections.py\<close> does not import \<^verbatim>\<open>threading\<close>: both
  constructors raise NameError, and no connection object comes out of them.
\<close>

datatype connection_class = SocketConnection_class | DummyConnection_class

definition new_connection :: "connection_class \<Rightarrow> sock \<Rightarrow> error + connection" where
  "new_connection cls sk =
     (case cls of
        SocketConnection_class \<Rightarrow> Inl NameError
      | DummyConnection_class \<Rightarrow> Inl NameError)"

text \<open>
  What a call does to the world outside the manager is recorded in \<open>nm_trace\<close>, oldest
  event first: \<open>Tried\<close> the \<^verbatim>\<open>try\<close> block of the connection loop entered, \<open>Built\<close> a
  connection object constructed, \<open>Slept d\<close> a \<^verbatim>\<open>time.sleep(d)\<close> that returned,
  \<open>Closed\<close> a held connection disconnected and closed, \<open>StoppedVideo\<close> and
  \<open>StoppedProcessor\<close> a held channel stopped, \<open>ThreadStarted\<close> the connection thread
  started, \<open>ThreadJoined\<close> a live connection thread told to stop and joined (for at
  most 2 s). The trace is not a field of the Python object.
  \<open>nm_reconnect_thread\<close> is \<open>None\<close> or \<open>Some alive\<close>. The manager's state is a
  ThreadSafeValue on which no callback is ever registered, so that setting it is an
  assignment.
\<close>

datatype nm_event =
    Tried | Built | Slept real | Closed | StoppedVideo | StoppedProcessor
  | ThreadStarted | ThreadJoined

record 'cp NetworkManager =
  nm_connection_class :: connection_class
  nm_reconnect_attempts :: int
  nm_reconnect_delay :: real
  nm_state :: ConnectionState
  nm_control_conn :: "connection option"
  nm_video_conn :: "connection option"
  nm_video_stream :: "VideoStream option"
  nm_command_processor :: "'cp option"
  nm_host :: "string option"
  nm_control_port :: int
  nm_video_port :: int
  nm_reconnect_thread :: "bool option"
  nm_stop_event :: bool
  nm_trace :: "nm_event list"

definition NetworkManager_init :: "connection_class \<Rightarrow> int \<Rightarrow> real \<Rightarrow> 'cp NetworkManager" where
  "NetworkManager_init connection_class reconnect_attempts reconnect_delay =
     \<lparr>nm_connection_class = connection_class, nm_reconnect_attempts = reconnect_attempts,
      nm_reconnect_delay = reconnect_delay, nm_state = DISCONNECTED,
      nm_control_conn = None, nm_video_conn = None, nm_video_stream = None,
      nm_command_processor = None, nm_host = None, nm_control_port = 5002,
      nm_video_port = 8002, nm_reconnect_thread = None, nm_stop_event = False,
      nm_trace = []\<rparr>"

definition record_event :: "nm_event \<Rightarrow> 'cp NetworkManager \<Rightarrow> 'cp NetworkManager" where
  "record_event e nm = nm\<lparr>nm_trace := nm_trace nm @ [e]\<rparr>"

text \<open>\<^verbatim>\<open>_stop_reconnect_thread\<close>.\<close>

definition stop_reconnect_thread :: "'cp NetworkManager \<Rightarrow> 'cp NetworkManager" where
  "stop_reconnect_thread nm =
     (if nm_reconnect_thread nm = Some True
      then (record_event ThreadJoined (nm\<lparr>nm_stop_event := True\<rparr>))\<lparr>nm_reconnect_thread := None\<rparr>
      else nm\<lparr>nm_reconnect_thread := None\<rparr>)"

text \<open>The part common to \<^verbatim>\<open>_disconnect\<close> and \<^verbatim>\<open>_cleanup_connections\<close>: stop and drop the
  video stream and the command processor, disconnect and close the two connections,
  drop them. Whatever these calls raise is caught.\<close>

definition drop_video_stream :: "'cp NetworkManager \<Rightarrow> 'cp NetworkManager" where
  "drop_video_stream nm =
     (case nm_video_stream nm of
        None \<Rightarrow> nm
      | Some vs \<Rightarrow> (record_event StoppedVideo nm)\<lparr>nm_video_stream := None\<rparr>)"

definition drop_command_processor :: "'cp NetworkManager \<Rightarrow> 'cp NetworkManager" where
  "drop_command_processor nm =
     (case nm_command_processor nm of
        None \<Rightarrow> nm
      | Some cp \<Rightarrow> (record_event StoppedProcessor nm)\<lparr>nm_command_processor := None\<rparr>)"

definition close_connections :: "'cp NetworkManager \<Rightarrow> 'cp NetworkManager" where
  "close_connections nm =
     (let nm1 = (case nm_control_conn nm of None \<Rightarrow> nm | Some c \<Rightarrow> record_event Closed nm);
          nm2 = (case nm_video_conn nm1 of None \<Rightarrow> nm1 | Some c \<Rightarrow> record_event Closed nm1)
      in nm2\<lparr>nm_control_conn := None, nm_video_conn := None\<rparr>)"

definition cleanup_connections :: "'cp NetworkManager \<Rightarrow> 'cp NetworkManager" where
  "cleanup_connections nm = close_connections (drop_command_processor (drop_video_stream nm))"

text \<open>\<^verbatim>\<open>_disconnect\<close> and \<^verbatim>\<open>disconnect\<close>.\<close>

definition disconnect_internal :: "'cp NetworkManager \<Rightarrow> 'cp NetworkManager" where
  "disconnect_internal nm =
     (if nm_state nm = DISCONNECTED then nm
      else (close_connections
              (drop_command_processor
                 (drop_video_stream (nm\<lparr>nm_state := DISCONNECTING\<rparr>))))
           \<lparr>nm_state := DISCONNECTED\<rparr>)"

definition disconnect :: "'cp NetworkManager \<Rightarrow> error option \<times> 'cp NetworkManager" where
  "disconnect nm = (None, disconnect_internal (stop_reconnect_thread nm))"

text \<open>\<^verbatim>\<open>connect\<close>: it stores the target, tears down what exists, sets the state to
  CONNECTING, clears the stop event and starts the thread that will run
  \<^verbatim>\<open>_connect_loop\<close>. It contains no \<^verbatim>\<open>raise\<close>.\<close>

definition connect ::
  "string \<Rightarrow> int \<Rightarrow> int \<Rightarrow> 'cp NetworkManager \<Rightarrow> error option \<times> 'cp NetworkManager" where
  "connect host control_port video_port nm =
     (if nm_state nm = CONNECTED then (None, nm)
      else
        (let nm1 = nm\<lparr>nm_host := Some host, nm_control_port := control_port,
                      nm_video_port := video_port\<rparr>;
             nm2 = disconnect_internal (stop_reconnect_thread nm1);
             nm3 = nm2\<lparr>nm_state := CONNECTING, nm_stop_event := False\<rparr>
         in (None, (record_event ThreadStarted nm3)\<lparr>nm_reconnect_thread := Some True\<rparr>)))"

text \<open>
  The \<^verbatim>\<open>try\<close> block of \<^verbatim>\<open>_connect_loop\<close>, given the two sockets the operating system
  would hand out in this try. It returns the exception that ended the block, or \<open>None\<close>
  after the state has become CONNECTED. The objects built in a try that fails are local
  variables: they are not stored in the manager.
\<close>

definition try_connect ::
  "('cp, 'r) CommandProcessor_class \<Rightarrow> sock \<times> sock \<Rightarrow> 'cp NetworkManager
   \<Rightarrow> error option \<times> 'cp NetworkManager" where
  "try_connect CP socks nm =
     (let nm0 = record_event Tried nm in
      case new_connection (nm_connection_class nm0) (fst socks) of
        Inl e \<Rightarrow> (Some e, nm0)
      | Inr control_conn0 \<Rightarrow>
          (let nm1 = record_event Built nm0 in
           case conn_connect (nm_host nm1) (nm_control_port nm1) control_conn0 of
             (Some e, c) \<Rightarrow> (Some e, nm1)
           | (None, control_conn) \<Rightarrow>
               (case new_connection (nm_connection_class nm1) (snd socks) of
                  Inl e \<Rightarrow> (Some e, nm1)
                | Inr video_conn0 \<Rightarrow>
                    (let nm2 = record_event Built nm1 in
                     case conn_connect (nm_host nm2) (nm_video_port nm2) video_conn0 of
                       (Some e, c) \<Rightarrow> (Some e, nm2)
                     | (None, video_conn) \<Rightarrow>
                         (let command_processor = cp_init CP control_conn;
                              video_stream = VideoStream_init video_conn False
                          in case cp_start CP command_processor of
                               (Some e, p) \<Rightarrow> (Some e, nm2)
                             | (None, command_processor') \<Rightarrow>
                                 (case start video_stream of
                                    (Some e, v) \<Rightarrow> (Some e, nm2)
                                  | (None, video_stream') \<Rightarrow>
                                      (None,
                                       nm2\<lparr>nm_control_conn := Some control_conn,
                                           nm_video_conn := Some video_conn,
                                           nm_command_processor := Some command_processor',
                                           nm_video_stream := Some video_stream',
                                           nm_state := CONNECTED\<rparr>)))))))"

lemma record_event_attempts [simp]:
  "nm_reconnect_attempts (record_event e nm) = nm_reconnect_attempts nm"
  by (simp add: record_event_def)

lemma cleanup_connections_attempts [simp]:
  "nm_reconnect_attempts (cleanup_connections nm) = nm_reconnect_attempts nm"
  by (simp add: cleanup_connections_def close_connections_def drop_command_processor_def
        drop_video_stream_def Let_def split: option.splits)

lemma try_connect_attempts:
  "try_connect CP socks nm = (r, nm') \<Longrightarrow> nm_reconnect_attempts nm' = nm_reconnect_attempts nm"
  by (auto simp: try_connect_def Let_def split: prod.splits option.splits sum.splits)

text \<open>
  \<^verbatim>\<open>time.sleep(secs)\<close> raises ValueError for a negative length and OverflowError for a
  length that does not fit the clock (64 bits of nanoseconds); otherwise it returns
  after that time.
\<close>

definition time_sleep :: "real \<Rightarrow> error option" where
  "time_sleep secs =
     (if secs < 0 then Some ValueError
      else if 2 ^ 63 \<le> secs * 10 ^ 9 then Some OverflowError
      else None)"

text \<open>
  The statement \<^verbatim>\<open>time.sleep(self._reconnect_delay * (2 ** (attempt - 1)))\<close>. The power is
  an integer, which the product with a float converts to a float first: from
  \<^verbatim>\<open>2 ** 1024\<close> on that conversion raises OverflowError.
\<close>

definition backoff_sleep :: "real \<Rightarrow> nat \<Rightarrow> error option" where
  "backoff_sleep delay attempt =
     (if 1024 \<le> attempt - 1 then Some OverflowError
      else time_sleep (delay * 2 ^ (attempt - 1)))"

text \<open>
  \<^verbatim>\<open>_connect_loop\<close>, from the value \<open>attempt\<close> of its counter (0 at the start).
  \<open>net k\<close> is the pair of sockets the operating system would hand out in try number
  \<open>k\<close> (counted from 0). The handler for ConnectionError counts the try, cleans up and
  either gives up (state DISCONNECTED) or sleeps
  \<^verbatim>\<open>self._reconnect_delay * (2 ** (attempt - 1))\<close>; what that statement raises is raised
  inside a handler, so that no handler of the loop catches it: it leaves \<^verbatim>\<open>_connect_loop\<close>
  with the state as it is. The handler for \<^verbatim>\<open>Exception\<close> sets the state to DISCONNECTED,
  cleans up and leaves the loop.
\<close>

function connect_loop_from ::
  "('cp, 'r) CommandProcessor_class \<Rightarrow> (nat \<Rightarrow> sock \<times> sock) \<Rightarrow> nat \<Rightarrow> 'cp NetworkManager
   \<Rightarrow> error option \<times> 'cp NetworkManager" where
  "connect_loop_from CP net attempt nm =
     (if \<not> nm_stop_event nm \<and> int attempt < nm_reconnect_attempts nm then
        (case try_connect CP (net attempt) nm of
           (None, nm') \<Rightarrow> (None, nm')
         | (Some e, nm') \<Rightarrow>
             if isinstance_of e ConnectionError then
               (let attempt' = attempt + 1;
                    nm1 = cleanup_connections nm'
                in if int attempt' \<ge> nm_reconnect_attempts nm1
                   then (None, nm1\<lparr>nm_state := DISCONNECTED\<rparr>)
                   else
                     (case backoff_sleep (nm_reconnect_delay nm1) attempt' of
                        Some err \<Rightarrow> (Some err, nm1)
                      | None \<Rightarrow>
                          connect_loop_from CP net attempt'
                            (record_event
                               (Slept (nm_reconnect_delay nm1 * 2 ^ (attempt' - 1))) nm1)))
             else (None, cleanup_connections (nm'\<lparr>nm_state := DISCONNECTED\<rparr>)))
      else (None, nm))"
  by pat_completeness auto
termination
proof (relation "measure (\<lambda>(CP, net, attempt, nm). nat (nm_reconnect_attempts nm - int attempt))")
  show "wf (measure (\<lambda>(CP, net, attempt, nm). nat (nm_reconnect_attempts nm - int attempt)))"
    by simp
next
  fix CP :: "('cp, 'r) CommandProcessor_class" and net attempt and nm :: "'cp NetworkManager"
    and x y e attempt' nm1
  assume "\<not> nm_stop_event nm \<and> int attempt < nm_reconnect_attempts nm"
    and "(x, y) = try_connect CP (net attempt) nm"
    and "x = Some e" and "isinstance_of e ConnectionError"
    and "attempt' = attempt + 1" and "nm1 = cleanup_connections y"
    and "\<not> nm_reconnect_attempts nm1 \<le> int attempt'"
    and "backoff_sleep (nm_reconnect_delay nm1) attempt' = None"
  then show "((CP, net, attempt',
       record_event (Slept (nm_reconnect_delay nm1 * 2 ^ (attempt' - 1))) nm1),
      CP, net, attempt, nm)
     \<in> measure (\<lambda>(CP, net, attempt, nm). nat (nm_reconnect_attempts nm - int attempt))"
    using try_connect_attempts [of CP "net attempt" nm x y] by simp
qed

declare connect_loop_from.simps [simp del]

definition connect_loop ::
  "('cp, 'r) CommandProcessor_class \<Rightarrow> (nat \<Rightarrow> sock \<times> sock) \<Rightarrow> 'cp NetworkManager
   \<Rightarrow> error option \<times> 'cp NetworkManager" where
  "connect_loop CP net nm = connect_loop_from CP net 0 nm"

text \<open>\<^verbatim>\<open>send_command\<close> and \<^verbatim>\<open>get_video_frame\<close>.\<close>

definition send_command ::
  "('cp, 'r) CommandProcessor_class \<Rightarrow> string \<Rightarrow> real option \<Rightarrow> 'cp NetworkManager
   \<Rightarrow> (error + 'r) \<times> 'cp NetworkManager" where
  "send_command CP command timeout nm =
     (if nm_state nm \<noteq> CONNECTED then (Inl ConnectionError, nm)
      else case nm_command_processor nm of
             None \<Rightarrow> (Inl ConnectionError, nm)
           | Some cp \<Rightarrow>
               (case cp_send_command CP cp command timeout of
                  (r, cp') \<Rightarrow> (r, nm\<lparr>nm_command_processor := Some cp'\<rparr>)))"

definition get_video_frame ::
  "real option \<Rightarrow> 'cp NetworkManager \<Rightarrow> bytes option call_result" where
  "get_video_frame timeout nm =
     (if nm_state nm \<noteq> CONNECTED then Returns None
      else case nm_video_stream nm of
             None \<Rightarrow> Returns None
           | Some vs \<Rightarrow> get_frame timeout vs)"

text \<open>What a trace says: the sleeps, in order, and the number of tries.\<close>

fun sleeps :: "nm_event list \<Rightarrow> real list" where
  "sleeps [] = []"
| "sleeps (Slept d # es) = d # sleeps es"
| "sleeps (e # es) = sleeps es"

fun tries :: "nm_event list \<Rightarrow> nat" where
  "tries [] = 0"
| "tries (Tried # es) = Suc (tries es)"
| "tries (e # es) = tries es"

text \<open>For the examples: a command processor without state whose operations succeed,
  and a socket on which \<^verbatim>\<open>connect\<close> fails.\<close>

definition example_processor :: "(unit, unit) CommandProcessor_class" where
  "example_processor =
     \<lparr>cp_init = (\<lambda>c. ()), cp_start = (\<lambda>p. (None, p)),
      cp_send_command = (\<lambda>p command timeout. (Inr (), p))\<rparr>"

definition refusing :: sock where
  "refusing = \<lparr>sock_connectable = False, sock_timeout = None, sock_pending = []\<rparr>"

section \<open>\<^verbatim>\<open>utils.py\<close>: the decorator \<^verbatim>\<open>retry\<close>\<close>

text \<open>
  The wrapper that \<^verbatim>\<open>retry(max_attempts, delay, backoff, exceptions)\<close> puts around a
  function \<open>func\<close> acting on a state \<open>'s\<close>. \<open>retry_for\<close> is the loop
  \<^verbatim>\<open>for attempt in range(1, max_attempts + 1)\<close> over what is left of the range; the list
  \<open>slept\<close> gathers the arguments of \<^verbatim>\<open>time.sleep\<close>. An exception that is not an instance
  of one of \<open>exceptions\<close> leaves the wrapper at once; when the range is used up
  the wrapper raises RobotError.
\<close>

fun retry_for ::
  "int \<Rightarrow> real \<Rightarrow> error list \<Rightarrow> ('s \<Rightarrow> (error + 'a) \<times> 's) \<Rightarrow> int list \<Rightarrow> real \<Rightarrow> 's
   \<Rightarrow> real list \<Rightarrow> (error + 'a) \<times> 's \<times> real list" where
  "retry_for max_attempts backoff exceptions func [] current_delay s slept =
     (Inl RobotError, s, slept)"
| "retry_for max_attempts backoff exceptions func (attempt # rest) current_delay s slept =
     (case func s of
        (Inr v, s') \<Rightarrow> (Inr v, s', slept)
      | (Inl e, s') \<Rightarrow>
          if list_ex (isinstance_of e) exceptions then
            (if attempt = max_attempts then (Inl RobotError, s', slept)
             else retry_for max_attempts backoff exceptions func rest
                    (current_delay * backoff) s' (slept @ [current_delay]))
          else (Inl e, s', slept))"

definition retry ::
  "int \<Rightarrow> real \<Rightarrow> real \<Rightarrow> error list \<Rightarrow> ('s \<Rightarrow> (error + 'a) \<times> 's) \<Rightarrow> 's
   \<Rightarrow> (error + 'a) \<times> 's \<times> real list" where
  "retry max_attempts delay backoff exceptions func s =
     retry_for max_attempts backoff exceptions func [1 .. max_attempts] delay s []"

section \<open>\<^verbatim>\<open>Main.py\<close>: the guard of \<^verbatim>\<open>NetworkManager.connect\<close>\<close>

text \<open>
  \<^verbatim>\<open>Main.py\<close> has a NetworkManager of its own, with an enumeration of four states and
  \<^verbatim>\<open>connect\<close> wrapped in
  \<^verbatim>\<open>@retry(max_attempts=3, delay=1.0, backoff=2.0, exceptions=(ConnectionError, socket.error, TimeoutError))\<close>.
  The method first tests the state, raising InvalidStateError when it is CONNECTED, then
  calls \<^verbatim>\<open>_set_state(CONNECTING)\<close>; what it does after that (opening the two sockets,
  starting the threads, its error handlers) is the parameter \<open>body\<close>: the statements
  proved below hold for every body. \<open>mn_state_changes\<close> lists the calls of
  \<^verbatim>\<open>_on_state_changed\<close>.
\<close>

datatype Main_ConnectionState = Main_DISCONNECTED | Main_CONNECTING | Main_CONNECTED | Main_ERROR

record Main_NetworkManager =
  mn_state :: Main_ConnectionState
  mn_ip :: "string option"
  mn_port :: "int option"
  mn_video_port :: "int option"
  mn_instruction_socket :: "sock option"
  mn_video_socket :: "sock option"
  mn_video_thread_running :: bool
  mn_instruction_thread_running :: bool
  mn_stop_event :: bool
  mn_state_changes :: "(Main_ConnectionState \<times> Main_ConnectionState) list"

definition Main_set_state :: "Main_ConnectionState \<Rightarrow> Main_NetworkManager \<Rightarrow> Main_NetworkManager" where
  "Main_set_state new_state nm =
     (let old_state = mn_state nm in
      if old_state \<noteq> new_state
      then nm\<lparr>mn_state := new_state,
               mn_state_changes := mn_state_changes nm @ [(old_state, new_state)]\<rparr>
      else nm)"

definition Main_connect_once ::
  "(Main_NetworkManager \<Rightarrow> (error + bool) \<times> Main_NetworkManager)
   \<Rightarrow> Main_NetworkManager \<Rightarrow> (error + bool) \<times> Main_NetworkManager" where
  "Main_connect_once body nm =
     (if mn_state nm = Main_CONNECTED then (Inl InvalidStateError, nm)
      else body (Main_set_state Main_CONNECTING nm))"

definition Main_connect ::
  "(Main_NetworkManager \<Rightarrow> (error + bool) \<times> Main_NetworkManager)
   \<Rightarrow> Main_NetworkManager \<Rightarrow> (error + bool) \<times> Main_NetworkManager \<times> real list" where
  "Main_connect body nm =
     retry 3 1 2 [ConnectionError, OSError, TimeoutError] (Main_connect_once body) nm"

section \<open>\<^verbatim>\<open>Main.py\<close>: the command reader \<^verbatim>\<open>receive_instruction\<close>\<close>

text \<open>\<^verbatim>\<open>str.split(sep)\<close> for a separator of one character.\<close>

fun py_split :: "char \<Rightarrow> string \<Rightarrow> string list" where
  "py_split sep [] = [[]]"
| "py_split sep (c # cs) =
     (if c = sep then [] # py_split sep cs
      else (case py_split sep cs of [] \<Rightarrow> [[c]] | w # ws \<Rightarrow> (c # w) # ws))"

text \<open>
  \<^verbatim>\<open>command.py\<close> (the class \<^verbatim>\<open>COMMAND\<close> with the command codes) is not among the sources;
  the two codes the reader compares with are a parameter. Of the window, the model keeps
  what the reader touches: the flag \<^verbatim>\<open>client.tcp_flag\<close>, the text of \<^verbatim>\<open>label_sonic\<close>, the
  list \<^verbatim>\<open>power_value\<close> of two values (the integers 100 and 100 at first, later strings),
  and, as \<open>printed\<close>, the field lists that \<^verbatim>\<open>print(data)\<close> has written, oldest first:
  these are the records the reader has parsed.
\<close>

record COMMAND =
  CMD_SONIC :: string
  CMD_POWER :: string

datatype pyval = PyInt int | PyStr string

record MyWindow =
  tcp_flag :: bool
  label_sonic :: string
  power_value :: "pyval \<times> pyval"
  printed :: "string list list"

text \<open>
  The loop \<^verbatim>\<open>for oneCmd in cmdArray:\<close>. The test \<^verbatim>\<open>data == ""\<close> compares a list with a
  string and is never true. \<^verbatim>\<open>data[1]\<close> on a SONIC record of one field raises IndexError,
  which nothing catches.
\<close>

fun dispatch :: "COMMAND \<Rightarrow> string list \<Rightarrow> MyWindow \<Rightarrow> error option \<times> MyWindow" where
  "dispatch cmd [] w = (None, w)"
| "dispatch cmd (oneCmd # cmdArray) w =
     (let data = py_split CHR ''#'' oneCmd;
          w1 = w\<lparr>printed := printed w @ [data]\<rparr>
      in case data of
           [] \<Rightarrow> (Some IndexError, w1)
         | d0 # ds \<Rightarrow>
             if d0 = CMD_SONIC cmd then
               (case ds of
                  [] \<Rightarrow> (Some IndexError, w1)
                | d1 # ds' \<Rightarrow>
                    dispatch cmd cmdArray (w1\<lparr>label_sonic := ''Obstacle:'' @ d1 @ ''cm''\<rparr>))
             else if d0 = CMD_POWER cmd then
               dispatch cmd cmdArray
                 (if length data = 3
                  then w1\<lparr>power_value := (PyStr (data ! 1), PyStr (data ! 2))\<rparr>
                  else w1)
             else dispatch cmd cmdArray w1)"

text \<open>
  The loop \<^verbatim>\<open>while True:\<close> of \<^verbatim>\<open>receive_instruction\<close>, over what the successive calls of
  \<^verbatim>\<open>client.receive_data()\<close> return: a text, or an exception. \<^verbatim>\<open>receive_data\<close> returns the
  empty text when the client is not connected, when the peer has closed and on any
  \<^verbatim>\<open>OSError\<close>; the loop then ends, as it does when nothing more is scripted. The
  statement \<^verbatim>\<open>cmdArray==cmdArray[:-1]\<close> under \<^verbatim>\<open>if cmdArray[-1] !="":\<close> is a comparison
  whose value is dropped: it changes nothing and has no counterpart here. Nothing is
  kept from one pass of the loop to the next but the window.
\<close>

datatype received = Text string | ReceiveRaises

fun receive_instruction :: "COMMAND \<Rightarrow> received list \<Rightarrow> MyWindow \<Rightarrow> error option \<times> MyWindow" where
  "receive_instruction cmd [] w = (None, w)"
| "receive_instruction cmd (ReceiveRaises # later) w = (None, w\<lparr>tcp_flag := False\<rparr>)"
| "receive_instruction cmd (Text alldata # later) w =
     (if alldata = [] then (None, w)
      else
        (let cmdArray = py_split (CHR 0x0A) alldata
         in case dispatch cmd cmdArray w of
              (Some e, w') \<Rightarrow> (Some e, w')
            | (None, w') \<Rightarrow> receive_instruction cmd later w'))"

text \<open>
  The wire format of the spec, for stating what the reader does with whole records: a
  record is its fields joined by \<^verbatim>\<open>#\<close> and ended by a newline. A record can be sent that
  way when it has at least one field and no field contains \<^verbatim>\<open>#\<close> or a newline;
  \<open>wire_record_ok\<close> asks in addition that a SONIC record has its argument.
\<close>

fun py_join :: "char \<Rightarrow> string list \<Rightarrow> string" where
  "py_join sep [] = []"
| "py_join sep [w] = w"
| "py_join sep (w # ws) = w @ sep # py_join sep ws"

definition wire_records :: "string list list \<Rightarrow> string" where
  "wire_records rs = concat (map (\<lambda>r. py_join CHR ''#'' r @ [CHR 0x0A]) rs)"

definition wire_record_ok :: "COMMAND \<Rightarrow> string list \<Rightarrow> bool" where
  "wire_record_ok cmd r =
     (r \<noteq> [] \<and> list_all (\<lambda>f. CHR ''#'' \<notin> set f \<and> CHR 0x0A \<notin> set f) r
      \<and> (hd r = CMD_SONIC cmd \<longrightarrow> 2 \<le> length r))"

section \<open>Properties of ThreadSafeValue\<close>

lemma invocations_notify_loop:
  "invocations (snd (notify_loop d old new k cbs w)) =
     map (\<lambda>i. (i, old, new)) [k ..< k + length cbs]"
proof (induction cbs arbitrary: k w)
  case Nil
  show ?case by simp
next
  case (Cons cb cbs)
  obtain r w' where cb: "cb old new w = (r, w')"
    by (cases "cb old new w")
  obtain w'' es where run: "notify_loop d old new (Suc k) cbs w' = (w'', es)"
    by (cases "notify_loop d old new (Suc k) cbs w'")
  have step: "invocations es = map (\<lambda>i. (i, old, new)) [Suc k ..< Suc k + length cbs]"
    using Cons.IH [of "Suc k" w'] unfolding run by simp
  have upt: "[k ..< k + length (cb # cbs)] = k # [Suc k ..< Suc k + length cbs]"
    by (simp add: upt_rec)
  show ?case
    unfolding upt using cb run step by (cases r) simp_all
qed

lemma lock_depths_notify_loop:
  "lock_depths (snd (notify_loop d old new k cbs w)) = replicate (length cbs) d"
proof (induction cbs arbitrary: k w)
  case Nil
  show ?case by simp
next
  case (Cons cb cbs)
  obtain r w' where cb: "cb old new w = (r, w')"
    by (cases "cb old new w")
  obtain w'' es where run: "notify_loop d old new (Suc k) cbs w' = (w'', es)"
    by (cases "notify_loop d old new (Suc k) cbs w'")
  have step: "lock_depths es = replicate (length cbs) d"
    using Cons.IH [of "Suc k" w'] unfolding run by simp
  show ?case
    using cb run step by (cases r) simp_all
qed

text \<open>
  C7 (counterexample). A value 0 with one callback, lock not held on entry: setting it to 1
  calls the callback while the lock is held at depth 2 (once by the setter, once by
  \<^verbatim>\<open>_notify_observers\<close>), not after the lock has been released.
\<close>

theorem set_value_callback_under_lock:
  "snd (snd (snd (set_value (1::int)
      \<lparr>tsv_value = 0, tsv_name = ''state'', tsv_lock = 0,
       tsv_callbacks = [\<lambda>old new (w::nat). (CbReturns, Suc w)]\<rparr> 0)))
   = [Invoked 0 0 1 2]"
  by (simp add: set_value_def notify_observers_def)

text \<open>
  C7 (amended). For every ThreadSafeValue, \<open>set_value v\<close> returns normally; it calls the
  registered callbacks if and only if \<open>v\<close> differs from the prior value, and then it calls
  every one of them, in registration order, with (old, new), whether or not an earlier
  callback raised; every call is made while the internal lock is still held (two levels
  above the depth at entry), and the lock is back at its entry depth on return.
\<close>

theorem set_value_notifies:
  "fst (set_value v tsv w) = None
   \<and> invocations (snd (snd (snd (set_value v tsv w)))) =
       (if v \<noteq> tsv_value tsv
        then map (\<lambda>k. (k, tsv_value tsv, v)) [0 ..< length (tsv_callbacks tsv)]
        else [])
   \<and> lock_depths (snd (snd (snd (set_value v tsv w)))) =
       (if v \<noteq> tsv_value tsv
        then replicate (length (tsv_callbacks tsv)) (tsv_lock tsv + 2)
        else [])
   \<and> tsv_lock (fst (snd (set_value v tsv w))) = tsv_lock tsv
   \<and> tsv_value (fst (snd (set_value v tsv w))) = v"
proof (cases "v = tsv_value tsv")
  case True
  then show ?thesis by (simp add: set_value_def)
next
  case False
  let ?st = "tsv\<lparr>tsv_lock := tsv_lock tsv + 1, tsv_value := v\<rparr>"
  obtain w' es where run:
    "notify_loop (tsv_lock tsv + 2) (tsv_value tsv) v 0 (tsv_callbacks tsv) w = (w', es)"
    by (cases "notify_loop (tsv_lock tsv + 2) (tsv_value tsv) v 0 (tsv_callbacks tsv) w")
  have inv: "invocations es =
      map (\<lambda>k. (k, tsv_value tsv, v)) [0 ..< length (tsv_callbacks tsv)]"
    using invocations_notify_loop
      [of "tsv_lock tsv + 2" "tsv_value tsv" v 0 "tsv_callbacks tsv" w]
    unfolding run by simp
  have dep: "lock_depths es = replicate (length (tsv_callbacks tsv)) (tsv_lock tsv + 2)"
    using lock_depths_notify_loop
      [of "tsv_lock tsv + 2" "tsv_value tsv" v 0 "tsv_callbacks tsv" w]
    unfolding run by simp
  have eq: "set_value v tsv w = (None, ?st\<lparr>tsv_lock := tsv_lock tsv\<rparr>, w', es)"
    using False run by (simp add: set_value_def notify_observers_def Let_def add.commute)
  show ?thesis using False inv dep by (simp add: eq)
qed

text \<open>Witness: three observers counting their calls, the second one raising; the
  value changes from 0 to 1 and all three are called.\<close>

theorem set_value_notifies_witness:
  "(1::int) \<noteq> 0
   \<and> invocations (snd (snd (snd (set_value (1::int)
        \<lparr>tsv_value = 0, tsv_name = ''state'', tsv_lock = 0,
         tsv_callbacks = [\<lambda>old new (w::nat). (CbReturns, Suc w),
                          \<lambda>old new w. (CbRaises, Suc w),
                          \<lambda>old new w. (CbReturns, Suc w)]\<rparr> 0))))
     = [(0, 0, 1), (1, 0, 1), (2, 0, 1)]"
  using set_value_notifies [of "1::int"
      "\<lparr>tsv_value = 0, tsv_name = ''state'', tsv_lock = 0,
        tsv_callbacks = [\<lambda>old new (w::nat). (CbReturns, Suc w),
                         \<lambda>old new w. (CbRaises, Suc w),
                         \<lambda>old new w. (CbReturns, Suc w)]\<rparr>" "0::nat"]
  by (simp add: numeral_2_eq_2)

section \<open>Properties of the connections\<close>

lemma socket_receive_bounds:
  "socket_receive n t c = (Inr bs, c') \<Longrightarrow> 1 \<le> length bs \<and> length bs \<le> n"
  by (auto simp: socket_receive_def sock_recv_def Suc_le_eq
           split: if_splits option.splits list.splits recv_event.splits)

text \<open>
  C5 (counterexample). A connected DummyConnection with an empty buffer: \<^verbatim>\<open>receive(4)\<close>
  returns the empty byte string as a normal result; it raises neither ConnectionError
  nor a timeout.
\<close>

theorem dummy_receive_returns_empty:
  "dummy_receive 4 (Some 1) \<lparr>d_state = CONNECTED, d_buffer = []\<rparr>
     = (Inr [], \<lparr>d_state = CONNECTED, d_buffer = []\<rparr>)"
  by (simp add: dummy_receive_def)

text \<open>
  C5 (amended). \<^verbatim>\<open>SocketConnection.receive\<close> returns between 1 and \<open>size\<close> bytes on
  success and never an empty byte string; on a zero-length read it raises ConnectionError;
  when no bytes arrive within the timeout it raises TimeoutError, a class distinct from
  ConnectionError; when not connected it raises ConnectionError and leaves the connection
  as it is. \<^verbatim>\<open>DummyConnection.receive\<close>, when connected, returns the first \<open>size\<close> bytes of
  its buffer (all of it, possibly none, when the buffer is shorter) and removes them;
  when not connected it raises ConnectionError; it never signals a timeout.
\<close>

theorem receive_outcomes:
  "(\<forall>bs c'. socket_receive n t c = (Inr bs, c') \<longrightarrow> 1 \<le> length bs \<and> length bs \<le> n)
   \<and> (s_state c = CONNECTED \<and> s_sock c = Some sk
        \<and> fst (sock_recv n (settimeout t sk)) = RecvBytes []
      \<longrightarrow> fst (socket_receive n t c) = Inl ConnectionError)
   \<and> (s_state c = CONNECTED \<and> s_sock c = Some sk
        \<and> fst (sock_recv n (settimeout t sk)) = RecvTimeout
      \<longrightarrow> fst (socket_receive n t c) = Inl TimeoutError)
   \<and> TimeoutError \<noteq> ConnectionError
   \<and> (s_state c \<noteq> CONNECTED \<longrightarrow> socket_receive n t c = (Inl ConnectionError, c))
   \<and> (d_state d = CONNECTED
      \<longrightarrow> dummy_receive n t d = (Inr (take n (d_buffer d)), d\<lparr>d_buffer := drop n (d_buffer d)\<rparr>))
   \<and> (d_state d \<noteq> CONNECTED \<longrightarrow> dummy_receive n t d = (Inl ConnectionError, d))
   \<and> fst (dummy_receive n t d) \<noteq> Inl TimeoutError"
proof -
  have a: "\<forall>bs c'. socket_receive n t c = (Inr bs, c') \<longrightarrow> 1 \<le> length bs \<and> length bs \<le> n"
    using socket_receive_bounds by blast
  have b: "s_state c = CONNECTED \<and> s_sock c = Some sk
        \<and> fst (sock_recv n (settimeout t sk)) = RecvBytes []
      \<longrightarrow> fst (socket_receive n t c) = Inl ConnectionError"
    by (cases "sock_recv n (settimeout t sk)") (auto simp: socket_receive_def)
  have c: "s_state c = CONNECTED \<and> s_sock c = Some sk
        \<and> fst (sock_recv n (settimeout t sk)) = RecvTimeout
      \<longrightarrow> fst (socket_receive n t c) = Inl TimeoutError"
    by (cases "sock_recv n (settimeout t sk)") (auto simp: socket_receive_def)
  have d: "fst (dummy_receive n t d) \<noteq> Inl TimeoutError"
    by (simp add: dummy_receive_def)
  show ?thesis using a b c d by (simp add: socket_receive_def dummy_receive_def)
qed

text \<open>Witness: a socket with six bytes arrived, one at the end of the stream, one that
  stays quiet; a DummyConnection with six bytes buffered and one that is not connected.\<close>

theorem receive_outcomes_witness:
  "socket_receive 4 (Some 1)
      \<lparr>s_sock = Some \<lparr>sock_connectable = True, sock_timeout = None,
                      sock_pending = [Data [1, 2, 3, 4, 5, 6]]\<rparr>,
       s_state = CONNECTED, s_host = None, s_port = None, s_timeout = 5\<rparr>
     = (Inr [1, 2, 3, 4],
        \<lparr>s_sock = Some \<lparr>sock_connectable = True, sock_timeout = Some 1,
                        sock_pending = [Data [5, 6]]\<rparr>,
         s_state = CONNECTED, s_host = None, s_port = None, s_timeout = 5\<rparr>)
   \<and> 1 \<le> length [1, 2, 3, 4 :: 8 word] \<and> length [1, 2, 3, 4 :: 8 word] \<le> 4
   \<and> fst (socket_receive 4 (Some 1)
        \<lparr>s_sock = Some \<lparr>sock_connectable = True, sock_timeout = None, sock_pending = []\<rparr>,
         s_state = CONNECTED, s_host = None, s_port = None, s_timeout = 5\<rparr>)
       = Inl ConnectionError
   \<and> fst (socket_receive 4 (Some 1)
        \<lparr>s_sock = Some \<lparr>sock_connectable = True, sock_timeout = None,
                        sock_pending = [Quiet]\<rparr>,
         s_state = CONNECTED, s_host = None, s_port = None, s_timeout = 5\<rparr>)
       = Inl TimeoutError
   \<and> dummy_receive 4 None \<lparr>d_state = CONNECTED, d_buffer = [1, 2, 3, 4, 5, 6]\<rparr>
       = (Inr [1, 2, 3, 4], \<lparr>d_state = CONNECTED, d_buffer = [5, 6]\<rparr>)
   \<and> dummy_receive 4 None \<lparr>d_state = DISCONNECTED, d_buffer = [1, 2]\<rparr>
       = (Inl ConnectionError, \<lparr>d_state = DISCONNECTED, d_buffer = [1, 2]\<rparr>)"
proof -
  let ?sk1 = "\<lparr>sock_connectable = True, sock_timeout = None,
               sock_pending = [Data [1, 2, 3, 4, 5, 6 :: 8 word]]\<rparr>"
  let ?sk2 = "\<lparr>sock_connectable = True, sock_timeout = None, sock_pending = []\<rparr>"
  let ?sk3 = "\<lparr>sock_connectable = True, sock_timeout = None, sock_pending = [Quiet]\<rparr>"
  let ?c = "\<lambda>sk. \<lparr>s_sock = Some sk, s_state = CONNECTED, s_host = None, s_port = None,
                  s_timeout = 5\<rparr>"
  let ?d1 = "\<lparr>d_state = CONNECTED, d_buffer = [1, 2, 3, 4, 5, 6 :: 8 word]\<rparr>"
  let ?d2 = "\<lparr>d_state = DISCONNECTED, d_buffer = [1, 2 :: 8 word]\<rparr>"
  have run: "socket_receive 4 (Some 1) (?c ?sk1)
     = (Inr [1, 2, 3, 4], ?c \<lparr>sock_connectable = True, sock_timeout = Some 1,
                        sock_pending = [Data [5, 6]]\<rparr>)"
    by (simp add: socket_receive_def sock_recv_def settimeout_def)
  have h2: "fst (sock_recv 4 (settimeout (Some 1) ?sk2)) = RecvBytes []"
    by (simp add: sock_recv_def settimeout_def)
  have h3: "fst (sock_recv 4 (settimeout (Some 1) ?sk3)) = RecvTimeout"
    by (simp add: sock_recv_def settimeout_def)
  show ?thesis
    using receive_outcomes [of 4 "Some 1" "?c ?sk1" ?sk1 ?d1] 
          receive_outcomes [of 4 "Some 1" "?c ?sk2" ?sk2 ?d2]
          receive_outcomes [of 4 "Some 1" "?c ?sk3" ?sk3 ?d1]
          receive_outcomes [of 4 None "?c ?sk3" ?sk3 ?d1]
          receive_outcomes [of 4 None "?c ?sk3" ?sk3 ?d2]
          run h2 h3
    by simp
qed

section \<open>Properties of the video stream\<close>

text \<open>
  C3 (counterexample). The reader on a connection that holds the header of length
  10 MiB + 1, then the header of length 1, then one payload byte. The first pass reads the
  four header bytes and continues: the stream is still running, no error state is entered.
  The second pass reads the next four bytes as a header and the byte after them as the
  payload of a frame, which it stores.
\<close>

theorem stream_iter_skips_invalid_length:
  "fst (stream_iter
      \<lparr>vs_conn = Dummy \<lparr>d_state = CONNECTED, d_buffer = [1, 0, 160, 0, 1, 0, 0, 0, 65]\<rparr>,
       vs_has_callback = False, vs_callback_frames = [], vs_running = True,
       vs_thread = True, vs_current_frame = None, vs_frame_ready = False\<rparr>) = Continue
   \<and> unpack_le [1, 0, 160, 0] = 10 * 1024 * 1024 + 1
   \<and> snd (stream_iter
      \<lparr>vs_conn = Dummy \<lparr>d_state = CONNECTED, d_buffer = [1, 0, 160, 0, 1, 0, 0, 0, 65]\<rparr>,
       vs_has_callback = False, vs_callback_frames = [], vs_running = True,
       vs_thread = True, vs_current_frame = None, vs_frame_ready = False\<rparr>)
     = \<lparr>vs_conn = Dummy \<lparr>d_state = CONNECTED, d_buffer = [1, 0, 0, 0, 65]\<rparr>,
        vs_has_callback = False, vs_callback_frames = [], vs_running = True,
        vs_thread = True, vs_current_frame = None, vs_frame_ready = False\<rparr>
   \<and> stream_iter
      \<lparr>vs_conn = Dummy \<lparr>d_state = CONNECTED, d_buffer = [1, 0, 0, 0, 65]\<rparr>,
        vs_has_callback = False, vs_callback_frames = [], vs_running = True,
        vs_thread = True, vs_current_frame = None, vs_frame_ready = False\<rparr>
     = (Continue,
        \<lparr>vs_conn = Dummy \<lparr>d_state = CONNECTED, d_buffer = []\<rparr>,
         vs_has_callback = False, vs_callback_frames = [], vs_running = True,
         vs_thread = True, vs_current_frame = Some [65], vs_frame_ready = True\<rparr>)"
  by (simp add: stream_iter_def dummy_receive_def read_frame.simps)

text \<open>
  C3 (amended). When the reader decodes a frame-length header of 0 or of more than 10 MiB
  it does not treat the condition as fatal: that pass of the loop ends (after a warning)
  having read the four header bytes and nothing else, no byte is read as payload of that
  header, the stream is left as it was (still running, latest frame unchanged), and the
  loop continues with the bytes that follow, read as the next header.
\<close>

theorem invalid_length_continues:
  assumes "receive 4 (Some 1) (vs_conn vs) = (Inr header, c1)"
    and "length header = 4"
    and "unpack_le header = 0 \<or> unpack_le header > 10 * 1024 * 1024"
  shows "stream_iter vs = (Continue, vs\<lparr>vs_conn := c1\<rparr>)
     \<and> (vs_running vs \<longrightarrow> stream_loop (Suc n) vs = stream_loop n (vs\<lparr>vs_conn := c1\<rparr>))"
proof -
  have it: "stream_iter vs = (Continue, vs\<lparr>vs_conn := c1\<rparr>)"
    using assms by (auto simp: stream_iter_def Let_def)
  show ?thesis
    using it by (simp add: stream_loop.simps [of "Suc n"])
qed

text \<open>Witness: a header of length 0 followed by two more bytes.\<close>

theorem invalid_length_continues_witness:
  "receive 4 (Some 1) (Dummy \<lparr>d_state = CONNECTED, d_buffer = [0, 0, 0, 0, 7, 7]\<rparr>)
     = (Inr [0, 0, 0, 0], Dummy \<lparr>d_state = CONNECTED, d_buffer = [7, 7]\<rparr>)
   \<and> length [0, 0, 0, 0 :: 8 word] = 4
   \<and> unpack_le [0, 0, 0, 0] = 0
   \<and> stream_iter
        \<lparr>vs_conn = Dummy \<lparr>d_state = CONNECTED, d_buffer = [0, 0, 0, 0, 7, 7]\<rparr>,
         vs_has_callback = False, vs_callback_frames = [], vs_running = True,
         vs_thread = True, vs_current_frame = None, vs_frame_ready = False\<rparr>
     = (Continue,
        \<lparr>vs_conn = Dummy \<lparr>d_state = CONNECTED, d_buffer = [7, 7]\<rparr>,
         vs_has_callback = False, vs_callback_frames = [], vs_running = True,
         vs_thread = True, vs_current_frame = None, vs_frame_ready = False\<rparr>)"
proof -
  let ?vs = "\<lparr>vs_conn = Dummy \<lparr>d_state = CONNECTED, d_buffer = [0, 0, 0, 0, 7, 7]\<rparr>,
         vs_has_callback = False, vs_callback_frames = [], vs_running = True,
         vs_thread = True, vs_current_frame = None, vs_frame_ready = False\<rparr>"
  have r: "receive 4 (Some 1) (vs_conn ?vs)
     = (Inr [0, 0, 0, 0], Dummy \<lparr>d_state = CONNECTED, d_buffer = [7, 7]\<rparr>)"
    by (simp add: dummy_receive_def)
  have l: "length [0, 0, 0, 0 :: 8 word] = 4" by simp
  have u: "unpack_le [0, 0, 0, 0] = 0 \<or> unpack_le [0, 0, 0, 0] > 10 * 1024 * 1024" by simp
  show ?thesis
    using invalid_length_continues [OF r l u, of 0] r by simp
qed

lemma stream_loop_ends_not_running:
  "stream_loop n vs = Some vs' \<Longrightarrow> \<not> vs_running vs'"
proof (induction n arbitrary: vs)
  case 0
  then show ?case by (auto simp: stream_loop.simps [of 0] split: if_splits)
next
  case (Suc n)
  show ?case
  proof (cases "vs_running vs")
    case False
    with Suc.prems show ?thesis by (auto simp: stream_loop.simps [of "Suc n"])
  next
    case True
    obtain ctl v where it: "stream_iter vs = (ctl, v)" by (cases "stream_iter vs")
    show ?thesis
    proof (cases ctl)
      case Break
      with Suc.prems True it show ?thesis by (auto simp: stream_loop.simps [of "Suc n"])
    next
      case Continue
      with Suc.prems True it have "stream_loop n v = Some vs'"
        by (simp add: stream_loop.simps [of "Suc n"])
      then show ?thesis by (rule Suc.IH)
    qed
  qed
qed

text \<open>
  C10. \<^verbatim>\<open>get_frame\<close> returns \<^verbatim>\<open>None\<close> whenever the stream is not running, whatever the
  latest-frame slot holds: after \<^verbatim>\<open>stop()\<close> (which leaves the slot as it was), and
  after the reader loop has ended, a frame delivered before cannot be read through
  \<^verbatim>\<open>get_frame\<close>.
\<close>

theorem get_frame_none_when_not_running:
  "(\<not> vs_running vs \<longrightarrow> get_frame timeout vs = Returns None)
   \<and> get_frame timeout (stop vs) = Returns None
   \<and> vs_current_frame (stop vs) = vs_current_frame vs
   \<and> (\<forall>n vs'. stream_loop n vs = Some vs' \<longrightarrow> get_frame timeout vs' = Returns None)"
proof -
  have "get_frame timeout vs' = Returns None" if "stream_loop n vs = Some vs'" for n vs'
    using stream_loop_ends_not_running [OF that] by (simp add: get_frame_def)
  then show ?thesis by (simp add: get_frame_def stop_def)
qed

text \<open>Witness: a running stream that holds a frame returns it; the reader then meets
  the end of the stream (ConnectionError) and ends; the frame is still in the slot, and
  \<^verbatim>\<open>get_frame\<close> returns \<^verbatim>\<open>None\<close>.\<close>

theorem get_frame_none_when_not_running_witness:
  "get_frame (Some 1)
      \<lparr>vs_conn = Socket \<lparr>s_sock = Some \<lparr>sock_connectable = True, sock_timeout = None,
                                        sock_pending = []\<rparr>,
                         s_state = CONNECTED, s_host = None, s_port = None, s_timeout = 5\<rparr>,
       vs_has_callback = False, vs_callback_frames = [], vs_running = True,
       vs_thread = True, vs_current_frame = Some [65], vs_frame_ready = True\<rparr>
     = Returns (Some [65])
   \<and> (\<exists>vs'. stream_loop 1
      \<lparr>vs_conn = Socket \<lparr>s_sock = Some \<lparr>sock_connectable = True, sock_timeout = None,
                                        sock_pending = []\<rparr>,
                         s_state = CONNECTED, s_host = None, s_port = None, s_timeout = 5\<rparr>,
       vs_has_callback = False, vs_callback_frames = [], vs_running = True,
       vs_thread = True, vs_current_frame = Some [65], vs_frame_ready = True\<rparr> = Some vs'
       \<and> vs_current_frame vs' = Some [65] \<and> vs_frame_ready vs'
       \<and> get_frame (Some 1) vs' = Returns None)"
proof -
  let ?vs = "\<lparr>vs_conn = Socket \<lparr>s_sock = Some \<lparr>sock_connectable = True, sock_timeout = None,
                                        sock_pending = []\<rparr>,
                         s_state = CONNECTED, s_host = None, s_port = None, s_timeout = 5\<rparr>,
       vs_has_callback = False, vs_callback_frames = [], vs_running = True,
       vs_thread = True, vs_current_frame = Some [65], vs_frame_ready = True\<rparr>"
  let ?vs' = "\<lparr>vs_conn = Socket \<lparr>s_sock = Some \<lparr>sock_connectable = True, sock_timeout = Some 1,
                                        sock_pending = []\<rparr>,
                         s_state = DISCONNECTED, s_host = None, s_port = None, s_timeout = 5\<rparr>,
       vs_has_callback = False, vs_callback_frames = [], vs_running = False,
       vs_thread = True, vs_current_frame = Some [65], vs_frame_ready = True\<rparr>"
  have run: "stream_loop 1 ?vs = Some ?vs'"
    by (simp add: stream_loop.simps [of "Suc 0"] stream_iter_def socket_receive_def sock_recv_def
          settimeout_def stream_except_def)
  have g: "get_frame (Some 1) ?vs' = Returns None"
    using get_frame_none_when_not_running [of ?vs "Some 1"] run by blast
  have "get_frame (Some 1) ?vs = Returns (Some [65])" by (simp add: get_frame_def)
  then show ?thesis using run g by simp
qed

section \<open>Properties of the network manager\<close>

lemma sleeps_append [simp]: "sleeps (xs @ ys) = sleeps xs @ sleeps ys"
  by (induction xs rule: sleeps.induct) simp_all

lemma tries_append [simp]: "tries (xs @ ys) = tries xs + tries ys"
  by (induction xs rule: tries.induct) simp_all

lemma drop_video_stream_keeps [simp]:
  "sleeps (nm_trace (drop_video_stream nm)) = sleeps (nm_trace nm)"
  "tries (nm_trace (drop_video_stream nm)) = tries (nm_trace nm)"
  "nm_stop_event (drop_video_stream nm) = nm_stop_event nm"
  "nm_reconnect_thread (drop_video_stream nm) = nm_reconnect_thread nm"
  "nm_state (drop_video_stream nm) = nm_state nm"
  by (cases "nm_video_stream nm"; simp add: drop_video_stream_def record_event_def)+

lemma drop_command_processor_keeps [simp]:
  "sleeps (nm_trace (drop_command_processor nm)) = sleeps (nm_trace nm)"
  "tries (nm_trace (drop_command_processor nm)) = tries (nm_trace nm)"
  "nm_stop_event (drop_command_processor nm) = nm_stop_event nm"
  "nm_reconnect_thread (drop_command_processor nm) = nm_reconnect_thread nm"
  "nm_state (drop_command_processor nm) = nm_state nm"
  by (cases "nm_command_processor nm"; simp add: drop_command_processor_def record_event_def)+

lemma close_connections_keeps [simp]:
  "sleeps (nm_trace (close_connections nm)) = sleeps (nm_trace nm)"
  "tries (nm_trace (close_connections nm)) = tries (nm_trace nm)"
  "nm_stop_event (close_connections nm) = nm_stop_event nm"
  "nm_reconnect_thread (close_connections nm) = nm_reconnect_thread nm"
  "nm_state (close_connections nm) = nm_state nm"
  by (cases "nm_control_conn nm"; cases "nm_video_conn nm";
      simp add: close_connections_def record_event_def)+

lemma cleanup_connections_keeps:
  "sleeps (nm_trace (cleanup_connections nm)) = sleeps (nm_trace nm)"
  "tries (nm_trace (cleanup_connections nm)) = tries (nm_trace nm)"
  "nm_state (cleanup_connections nm) = nm_state nm"
  by (simp_all add: cleanup_connections_def)

lemma disconnect_internal_keeps:
  "sleeps (nm_trace (disconnect_internal nm)) = sleeps (nm_trace nm)"
  "tries (nm_trace (disconnect_internal nm)) = tries (nm_trace nm)"
  "nm_stop_event (disconnect_internal nm) = nm_stop_event nm"
  "nm_reconnect_thread (disconnect_internal nm) = nm_reconnect_thread nm"
  "nm_reconnect_attempts (disconnect_internal nm) = nm_reconnect_attempts nm"
  by (simp_all add: disconnect_internal_def cleanup_connections_attempts [unfolded cleanup_connections_def])

lemma stop_reconnect_thread_keeps:
  "sleeps (nm_trace (stop_reconnect_thread nm)) = sleeps (nm_trace nm)"
  "tries (nm_trace (stop_reconnect_thread nm)) = tries (nm_trace nm)"
  "nm_reconnect_attempts (stop_reconnect_thread nm) = nm_reconnect_attempts nm"
  "nm_reconnect_thread (stop_reconnect_thread nm) = None"
  "nm_state (stop_reconnect_thread nm) = nm_state nm"
  by (simp_all add: stop_reconnect_thread_def record_event_def)

lemma connect_leaves:
  assumes "nm_state nm \<noteq> CONNECTED"
  shows "nm_state (snd (connect host cport vport nm)) = CONNECTING"
    and "\<not> nm_stop_event (snd (connect host cport vport nm))"
    and "nm_reconnect_attempts (snd (connect host cport vport nm)) = nm_reconnect_attempts nm"
    and "nm_reconnect_thread (snd (connect host cport vport nm)) = Some True"
    and "tries (nm_trace (snd (connect host cport vport nm))) = tries (nm_trace nm)"
    and "sleeps (nm_trace (snd (connect host cport vport nm))) = sleeps (nm_trace nm)"
  using assms
  by (simp_all add: connect_def Let_def record_event_def disconnect_internal_keeps
        stop_reconnect_thread_keeps)

lemma try_connect_NameError:
  "try_connect CP socks nm = (Some NameError, record_event Tried nm)"
  by (simp add: try_connect_def new_connection_def Let_def split: connection_class.splits)

lemma connect_loop_from_one_try:
  "connect_loop_from CP net attempt nm =
     (if \<not> nm_stop_event nm \<and> int attempt < nm_reconnect_attempts nm
      then (None, cleanup_connections ((record_event Tried nm)\<lparr>nm_state := DISCONNECTED\<rparr>))
      else (None, nm))"
  by (subst connect_loop_from.simps) (simp add: try_connect_NameError)

text \<open>
  C1 (the code at the failing input). A manager for sockets with three attempts and a
  delay of 1 s, and a host on which every \<^verbatim>\<open>connect\<close> of a socket would be refused.
  \<^verbatim>\<open>NetworkManager.connect\<close> returns normally with the state CONNECTING. The loop it has
  started enters its \<^verbatim>\<open>try\<close> block once: the constructor of the control connection raises
  NameError, the handler for \<^verbatim>\<open>Exception\<close> sets the state to DISCONNECTED and leaves the
  loop, which returns normally. There is one try, no sleep and no exception, where the
  claim has three tries, sleeps of 1 s and 2 s and a ConnectionError.
\<close>

theorem connect_loop_stops_at_first_try:
  "connect ''robot'' 5002 8002 (NetworkManager_init SocketConnection_class 3 1 :: unit NetworkManager)
     = (None, (NetworkManager_init SocketConnection_class 3 1)
                \<lparr>nm_state := CONNECTING, nm_host := Some ''robot'',
                 nm_reconnect_thread := Some True, nm_trace := [ThreadStarted]\<rparr>)
   \<and> connect_loop example_processor (\<lambda>k. (refusing, refusing))
        ((NetworkManager_init SocketConnection_class 3 1)
           \<lparr>nm_state := CONNECTING, nm_host := Some ''robot'',
            nm_reconnect_thread := Some True, nm_trace := [ThreadStarted]\<rparr>)
     = (None, (NetworkManager_init SocketConnection_class 3 1)
                \<lparr>nm_state := DISCONNECTED, nm_host := Some ''robot'',
                 nm_reconnect_thread := Some True, nm_trace := [ThreadStarted, Tried]\<rparr>)
   \<and> tries [ThreadStarted, Tried] = 1
   \<and> sleeps [ThreadStarted, Tried] = []"
  by (simp add: connect_def NetworkManager_init_def stop_reconnect_thread_def
        disconnect_internal_def record_event_def connect_loop_def connect_loop_from_one_try
        cleanup_connections_def close_connections_def drop_command_processor_def
        drop_video_stream_def)

text \<open>
  C2 (counterexample). \<^verbatim>\<open>connect\<close> of \<^verbatim>\<open>network_manager.py\<close> called in state CONNECTING,
  with the connection thread alive: it raises nothing (and no InvalidStateError); it
  joins the old thread, stores the host and starts a new thread.
\<close>

theorem connect_while_connecting_proceeds:
  "connect ''robot'' 5002 8002
      ((NetworkManager_init SocketConnection_class 3 1 :: unit NetworkManager)
         \<lparr>nm_state := CONNECTING, nm_reconnect_thread := Some True\<rparr>)
   = (None,
      (NetworkManager_init SocketConnection_class 3 1)
         \<lparr>nm_state := CONNECTING, nm_reconnect_thread := Some True,
          nm_host := Some ''robot'', nm_trace := [ThreadJoined, ThreadStarted]\<rparr>)"
  by (simp add: connect_def NetworkManager_init_def stop_reconnect_thread_def
        disconnect_internal_def close_connections_def drop_command_processor_def
        drop_video_stream_def record_event_def)

text \<open>
  C2 (amended). Only in state CONNECTED does \<^verbatim>\<open>connect\<close> refuse, leaving the state and
  every other field unchanged: the \<^verbatim>\<open>connect\<close> of \<^verbatim>\<open>network_manager.py\<close> returns
  normally, the \<^verbatim>\<open>connect\<close> of \<^verbatim>\<open>Main.py\<close> raises InvalidStateError (which its retry
  wrapper lets through at the first attempt, without sleeping). From every other
  state the \<^verbatim>\<open>connect\<close> of \<^verbatim>\<open>network_manager.py\<close> raises nothing: it stores host and ports,
  tells a connection thread that is alive to stop and joins it, and, unless the state is
  DISCONNECTED, stops and drops the video stream and the command processor and closes
  and drops the two connections it holds; then it sets the state to CONNECTING, clears
  the stop event and starts a new connection thread. Nothing else changes.
\<close>

theorem connect_refused_only_when_connected:
  "(nm_state nm = CONNECTED \<longrightarrow> connect host control_port video_port nm = (None, nm))
   \<and> (nm_state nm = DISCONNECTED \<longrightarrow>
        connect host control_port video_port nm =
          (None,
           nm\<lparr>nm_host := Some host, nm_control_port := control_port,
              nm_video_port := video_port, nm_state := CONNECTING, nm_stop_event := False,
              nm_reconnect_thread := Some True,
              nm_trace := nm_trace nm
                @ (if nm_reconnect_thread nm = Some True then [ThreadJoined] else [])
                @ [ThreadStarted]\<rparr>))
   \<and> (nm_state nm \<noteq> CONNECTED \<and> nm_state nm \<noteq> DISCONNECTED \<longrightarrow>
        connect host control_port video_port nm =
          (None,
           nm\<lparr>nm_host := Some host, nm_control_port := control_port,
              nm_video_port := video_port, nm_state := CONNECTING, nm_stop_event := False,
              nm_reconnect_thread := Some True,
              nm_video_stream := None, nm_command_processor := None,
              nm_control_conn := None, nm_video_conn := None,
              nm_trace := nm_trace nm
                @ (if nm_reconnect_thread nm = Some True then [ThreadJoined] else [])
                @ (if nm_video_stream nm = None then [] else [StoppedVideo])
                @ (if nm_command_processor nm = None then [] else [StoppedProcessor])
                @ (if nm_control_conn nm = None then [] else [Closed])
                @ (if nm_video_conn nm = None then [] else [Closed])
                @ [ThreadStarted]\<rparr>))
   \<and> (mn_state m = Main_CONNECTED \<longrightarrow> Main_connect body m = (Inl InvalidStateError, m, []))"
proof -
  have a: "nm_state nm = CONNECTED \<longrightarrow> connect host control_port video_port nm = (None, nm)"
    by (simp add: connect_def)
  have b: "nm_state nm = DISCONNECTED \<longrightarrow>
        connect host control_port video_port nm =
          (None,
           nm\<lparr>nm_host := Some host, nm_control_port := control_port,
              nm_video_port := video_port, nm_state := CONNECTING, nm_stop_event := False,
              nm_reconnect_thread := Some True,
              nm_trace := nm_trace nm
                @ (if nm_reconnect_thread nm = Some True then [ThreadJoined] else [])
                @ [ThreadStarted]\<rparr>)"
    by (simp add: connect_def stop_reconnect_thread_def disconnect_internal_def
          record_event_def)
  have c: "nm_state nm \<noteq> CONNECTED \<and> nm_state nm \<noteq> DISCONNECTED \<longrightarrow>
        connect host control_port video_port nm =
          (None,
           nm\<lparr>nm_host := Some host, nm_control_port := control_port,
              nm_video_port := video_port, nm_state := CONNECTING, nm_stop_event := False,
              nm_reconnect_thread := Some True,
              nm_video_stream := None, nm_command_processor := None,
              nm_control_conn := None, nm_video_conn := None,
              nm_trace := nm_trace nm
                @ (if nm_reconnect_thread nm = Some True then [ThreadJoined] else [])
                @ (if nm_video_stream nm = None then [] else [StoppedVideo])
                @ (if nm_command_processor nm = None then [] else [StoppedProcessor])
                @ (if nm_control_conn nm = None then [] else [Closed])
                @ (if nm_video_conn nm = None then [] else [Closed])
                @ [ThreadStarted]\<rparr>)"
    by (cases "nm_video_stream nm"; cases "nm_command_processor nm";
        cases "nm_control_conn nm"; cases "nm_video_conn nm")
       (simp_all add: connect_def stop_reconnect_thread_def disconnect_internal_def
          close_connections_def drop_command_processor_def drop_video_stream_def
          record_event_def)
  have up: "[1 .. 3 :: int] = [1, 2, 3]" by (simp add: upto.simps)
  have d: "mn_state m = Main_CONNECTED \<longrightarrow> Main_connect body m = (Inl InvalidStateError, m, [])"
    by (simp add: Main_connect_def retry_def up Main_connect_once_def)
  show ?thesis using a b c d by blast
qed

text \<open>Witness: both managers in state CONNECTED; the first one new (state DISCONNECTED);
  the first one in state ERROR with its channels and connections.\<close>

theorem connect_refused_only_when_connected_witness:
  "connect ''robot'' 5002 8002
      ((NetworkManager_init DummyConnection_class 3 1 :: unit NetworkManager)
         \<lparr>nm_state := CONNECTED\<rparr>)
     = (None, (NetworkManager_init DummyConnection_class 3 1)\<lparr>nm_state := CONNECTED\<rparr>)
   \<and> connect ''robot'' 5002 8002
        (NetworkManager_init DummyConnection_class 3 1 :: unit NetworkManager)
     = (None, (NetworkManager_init DummyConnection_class 3 1)
                \<lparr>nm_host := Some ''robot'', nm_state := CONNECTING,
                 nm_reconnect_thread := Some True, nm_trace := [ThreadStarted]\<rparr>)
   \<and> connect ''robot'' 5002 8002
        ((NetworkManager_init DummyConnection_class 3 1 :: unit NetworkManager)
           \<lparr>nm_state := ERROR,
            nm_control_conn := Some (Dummy \<lparr>d_state = CONNECTED, d_buffer = []\<rparr>),
            nm_video_conn := Some (Dummy \<lparr>d_state = CONNECTED, d_buffer = []\<rparr>),
            nm_command_processor := Some ()\<rparr>)
     = (None, (NetworkManager_init DummyConnection_class 3 1)
                \<lparr>nm_host := Some ''robot'', nm_state := CONNECTING,
                 nm_reconnect_thread := Some True,
                 nm_trace := [StoppedProcessor, Closed, Closed, ThreadStarted]\<rparr>)
   \<and> Main_connect (\<lambda>nm. (Inl ConnectionError, Main_set_state Main_ERROR nm))
        \<lparr>mn_state = Main_CONNECTED, mn_ip = None, mn_port = None, mn_video_port = None,
         mn_instruction_socket = None, mn_video_socket = None,
         mn_video_thread_running = False, mn_instruction_thread_running = False,
         mn_stop_event = False, mn_state_changes = []\<rparr>
     = (Inl InvalidStateError,
        \<lparr>mn_state = Main_CONNECTED, mn_ip = None, mn_port = None, mn_video_port = None,
         mn_instruction_socket = None, mn_video_socket = None,
         mn_video_thread_running = False, mn_instruction_thread_running = False,
         mn_stop_event = False, mn_state_changes = []\<rparr>, [])"
proof -
  let ?ini = "NetworkManager_init DummyConnection_class 3 1 :: unit NetworkManager"
  let ?err = "?ini\<lparr>nm_state := ERROR,
            nm_control_conn := Some (Dummy \<lparr>d_state = CONNECTED, d_buffer = []\<rparr>),
            nm_video_conn := Some (Dummy \<lparr>d_state = CONNECTED, d_buffer = []\<rparr>),
            nm_command_processor := Some ()\<rparr>"
  let ?m = "\<lparr>mn_state = Main_CONNECTED, mn_ip = None, mn_port = None, mn_video_port = None,
         mn_instruction_socket = None, mn_video_socket = None,
         mn_video_thread_running = False, mn_instruction_thread_running = False,
         mn_stop_event = False, mn_state_changes = []\<rparr>"
  let ?body = "\<lambda>nm. (Inl ConnectionError, Main_set_state Main_ERROR nm)"
  have h1: "nm_state (?ini\<lparr>nm_state := CONNECTED\<rparr>) = CONNECTED" by simp
  have h2: "nm_state ?ini = DISCONNECTED" by (simp add: NetworkManager_init_def)
  have h3: "nm_state ?err \<noteq> CONNECTED \<and> nm_state ?err \<noteq> DISCONNECTED" by simp
  have h4: "mn_state ?m = Main_CONNECTED" by simp
  have r1: "connect ''robot'' 5002 8002 (?ini\<lparr>nm_state := CONNECTED\<rparr>)
      = (None, ?ini\<lparr>nm_state := CONNECTED\<rparr>)"
    using connect_refused_only_when_connected
      [of "?ini\<lparr>nm_state := CONNECTED\<rparr>" "''robot''" 5002 8002 ?m ?body] h1 by blast
  have r4: "Main_connect ?body ?m = (Inl InvalidStateError, ?m, [])"
    using connect_refused_only_when_connected
      [of "?ini\<lparr>nm_state := CONNECTED\<rparr>" "''robot''" 5002 8002 ?m ?body] h4 by blast
  have r2: "connect ''robot'' 5002 8002 ?ini
      = (None, ?ini\<lparr>nm_host := Some ''robot'', nm_state := CONNECTING,
                 nm_reconnect_thread := Some True, nm_trace := [ThreadStarted]\<rparr>)"
    using connect_refused_only_when_connected [of ?ini "''robot''" 5002 8002 ?m ?body] h2
    by (simp add: NetworkManager_init_def)
  have r3: "connect ''robot'' 5002 8002 ?err
      = (None, ?ini\<lparr>nm_host := Some ''robot'', nm_state := CONNECTING,
                 nm_reconnect_thread := Some True,
                 nm_trace := [StoppedProcessor, Closed, Closed, ThreadStarted]\<rparr>)"
    using connect_refused_only_when_connected [of ?err "''robot''" 5002 8002 ?m ?body] h3
    by (simp add: NetworkManager_init_def)
  show ?thesis using r1 r2 r3 r4 by simp
qed

text \<open>
  C9. Whenever the state is not CONNECTED, \<^verbatim>\<open>connect\<close> returns without raising and
  without a connection attempt: on return the state is CONNECTING, the connection thread
  has been started, and no try has been made and no back-off slept. The loop that the
  thread then runs, for either connection class of \<^verbatim>\<open>connections.py\<close>, raises nothing
  either. A try fails with the NameError of the constructor. When at least one attempt is
  allowed the loop makes one try, and its failure shows only in the state, which the
  loop sets back to DISCONNECTED. When no attempt is allowed the loop makes no try and
  the state stays CONNECTING.
\<close>

theorem connect_returns_at_once:
  assumes "nm_state nm \<noteq> CONNECTED"
  shows "fst (connect host control_port video_port nm) = None
     \<and> nm_state (snd (connect host control_port video_port nm)) = CONNECTING
     \<and> nm_reconnect_thread (snd (connect host control_port video_port nm)) = Some True
     \<and> tries (nm_trace (snd (connect host control_port video_port nm))) = tries (nm_trace nm)
     \<and> sleeps (nm_trace (snd (connect host control_port video_port nm))) = sleeps (nm_trace nm)
     \<and> fst (try_connect CP (net 0) (snd (connect host control_port video_port nm)))
         = Some NameError
     \<and> fst (connect_loop CP net (snd (connect host control_port video_port nm))) = None
     \<and> nm_state (snd (connect_loop CP net (snd (connect host control_port video_port nm))))
         = (if 1 \<le> nm_reconnect_attempts nm then DISCONNECTED else CONNECTING)
     \<and> tries (nm_trace (snd (connect_loop CP net (snd (connect host control_port video_port nm)))))
         = tries (nm_trace nm) + (if 1 \<le> nm_reconnect_attempts nm then 1 else 0)"
proof -
  let ?nm = "snd (connect host control_port video_port nm)"
  have r: "fst (connect host control_port video_port nm) = None"
    by (simp add: connect_def Let_def)
  note l = connect_leaves [OF assms, of host control_port video_port]
  have go: "(\<not> nm_stop_event ?nm \<and> int 0 < nm_reconnect_attempts ?nm)
      = (1 \<le> nm_reconnect_attempts nm)"
    using l(2,3) by auto
  have loop: "connect_loop CP net ?nm =
     (if 1 \<le> nm_reconnect_attempts nm
      then (None, cleanup_connections ((record_event Tried ?nm)\<lparr>nm_state := DISCONNECTED\<rparr>))
      else (None, ?nm))"
    unfolding connect_loop_def connect_loop_from_one_try go ..
  have tr: "tries (nm_trace ((record_event Tried ?nm)\<lparr>nm_state := DISCONNECTED\<rparr>))
      = tries (nm_trace nm) + 1"
    using l(5) by (simp add: record_event_def)
  show ?thesis
    using r l(1,4,5,6) tr
    by (simp add: loop cleanup_connections_keeps try_connect_NameError)
qed

text \<open>Witness: a new manager for sockets with three attempts.\<close>

theorem connect_returns_at_once_witness:
  "nm_state (NetworkManager_init SocketConnection_class 3 1 :: unit NetworkManager) \<noteq> CONNECTED
   \<and> nm_state (snd (connect ''robot'' 5002 8002
        (NetworkManager_init SocketConnection_class 3 1 :: unit NetworkManager))) = CONNECTING
   \<and> fst (connect_loop example_processor (\<lambda>k. (refusing, refusing))
        (snd (connect ''robot'' 5002 8002
           (NetworkManager_init SocketConnection_class 3 1)))) = None
   \<and> nm_state (snd (connect_loop example_processor (\<lambda>k. (refusing, refusing))
        (snd (connect ''robot'' 5002 8002
           (NetworkManager_init SocketConnection_class 3 1))))) = DISCONNECTED"
proof -
  let ?ini = "NetworkManager_init SocketConnection_class 3 1 :: unit NetworkManager"
  have s: "nm_state ?ini \<noteq> CONNECTED" by (simp add: NetworkManager_init_def)
  have a: "1 \<le> nm_reconnect_attempts ?ini" by (simp add: NetworkManager_init_def)
  show ?thesis
    using connect_returns_at_once
      [OF s, of "''robot''" 5002 8002 example_processor "\<lambda>k. (refusing, refusing)"] s a
    by simp
qed

text \<open>
  C8 (counterexample). The manager as the connection loop leaves it after a failed try
  (state DISCONNECTED), its thread not yet ended: \<^verbatim>\<open>disconnect\<close> is not a no-op, it sets
  the stop event, joins the thread and forgets its handle.
\<close>

theorem disconnect_joins_live_thread:
  "nm_state ((NetworkManager_init SocketConnection_class 3 1 :: unit NetworkManager)
       \<lparr>nm_host := Some ''robot'', nm_reconnect_thread := Some True,
        nm_trace := [ThreadStarted, Tried]\<rparr>) = DISCONNECTED
   \<and> disconnect ((NetworkManager_init SocketConnection_class 3 1 :: unit NetworkManager)
       \<lparr>nm_host := Some ''robot'', nm_reconnect_thread := Some True,
        nm_trace := [ThreadStarted, Tried]\<rparr>)
     = (None, (NetworkManager_init SocketConnection_class 3 1)
                \<lparr>nm_host := Some ''robot'', nm_reconnect_thread := None,
                 nm_stop_event := True,
                 nm_trace := [ThreadStarted, Tried, ThreadJoined]\<rparr>)
   \<and> snd (disconnect ((NetworkManager_init SocketConnection_class 3 1 :: unit NetworkManager)
       \<lparr>nm_host := Some ''robot'', nm_reconnect_thread := Some True,
        nm_trace := [ThreadStarted, Tried]\<rparr>))
     \<noteq> (NetworkManager_init SocketConnection_class 3 1)
         \<lparr>nm_host := Some ''robot'', nm_reconnect_thread := Some True,
          nm_trace := [ThreadStarted, Tried]\<rparr>"
  by (simp add: disconnect_def NetworkManager_init_def stop_reconnect_thread_def
        disconnect_internal_def record_event_def)

text \<open>
  C8 (amended). \<^verbatim>\<open>disconnect\<close> never raises and leaves the state DISCONNECTED after every
  call; a second call straight after the first changes nothing at all. A call made when
  the state is DISCONNECTED already leaves state, connections, channels, host and ports
  as they are and stops or closes nothing, but it is not a no-op: it forgets the handle
  of the connection thread, and when that thread is still alive it first sets the stop
  event and joins it.
\<close>

theorem disconnect_idempotent:
  "fst (disconnect nm) = None
   \<and> nm_state (snd (disconnect nm)) = DISCONNECTED
   \<and> disconnect (snd (disconnect nm)) = (None, snd (disconnect nm))
   \<and> (nm_state nm = DISCONNECTED \<longrightarrow>
        snd (disconnect nm) =
          (if nm_reconnect_thread nm = Some True
           then nm\<lparr>nm_stop_event := True, nm_trace := nm_trace nm @ [ThreadJoined],
                   nm_reconnect_thread := None\<rparr>
           else nm\<lparr>nm_reconnect_thread := None\<rparr>))"
proof -
  have st: "nm_state (disconnect_internal x) = DISCONNECTED" for x :: "'a NetworkManager"
    by (simp add: disconnect_internal_def)
  have th: "nm_reconnect_thread (disconnect_internal (stop_reconnect_thread x)) = None"
    for x :: "'a NetworkManager"
    by (simp add: disconnect_internal_keeps stop_reconnect_thread_keeps)
  have again: "disconnect_internal (stop_reconnect_thread y) = y"
    if "nm_state y = DISCONNECTED" and "nm_reconnect_thread y = None"
    for y :: "'a NetworkManager"
    using that by (simp add: disconnect_internal_def stop_reconnect_thread_def)
  have twice: "disconnect (snd (disconnect nm)) = (None, snd (disconnect nm))"
    using again [OF st th, of nm] by (simp add: disconnect_def)
  have c1: "fst (disconnect nm) = None" by (simp add: disconnect_def)
  have c2: "nm_state (snd (disconnect nm)) = DISCONNECTED"
    using st by (simp add: disconnect_def)
  have c4: "nm_state nm = DISCONNECTED \<longrightarrow>
        snd (disconnect nm) =
          (if nm_reconnect_thread nm = Some True
           then nm\<lparr>nm_stop_event := True, nm_trace := nm_trace nm @ [ThreadJoined],
                   nm_reconnect_thread := None\<rparr>
           else nm\<lparr>nm_reconnect_thread := None\<rparr>)"
    by (simp add: disconnect_def disconnect_internal_def stop_reconnect_thread_def
        record_event_def)
  show ?thesis using c1 c2 twice c4 by blast
qed

text \<open>Witness: on a new manager \<^verbatim>\<open>disconnect\<close> changes nothing; on a connected one it
  stops the processor and closes both connections, and a second call changes nothing.\<close>

theorem disconnect_idempotent_witness:
  "nm_state (NetworkManager_init DummyConnection_class 3 1 :: unit NetworkManager) = DISCONNECTED
   \<and> disconnect (NetworkManager_init DummyConnection_class 3 1 :: unit NetworkManager)
       = (None, NetworkManager_init DummyConnection_class 3 1)
   \<and> disconnect
       ((NetworkManager_init DummyConnection_class 3 1 :: unit NetworkManager)
          \<lparr>nm_state := CONNECTED,
           nm_control_conn := Some (Dummy \<lparr>d_state = CONNECTED, d_buffer = []\<rparr>),
           nm_video_conn := Some (Dummy \<lparr>d_state = CONNECTED, d_buffer = []\<rparr>),
           nm_command_processor := Some ()\<rparr>)
       = (None, (NetworkManager_init DummyConnection_class 3 1)
                  \<lparr>nm_trace := [StoppedProcessor, Closed, Closed]\<rparr>)
   \<and> disconnect ((NetworkManager_init DummyConnection_class 3 1 :: unit NetworkManager)
                  \<lparr>nm_trace := [StoppedProcessor, Closed, Closed]\<rparr>)
       = (None, (NetworkManager_init DummyConnection_class 3 1)
                  \<lparr>nm_trace := [StoppedProcessor, Closed, Closed]\<rparr>)"
proof -
  let ?ini = "NetworkManager_init DummyConnection_class 3 1 :: unit NetworkManager"
  let ?con = "?ini\<lparr>nm_state := CONNECTED,
           nm_control_conn := Some (Dummy \<lparr>d_state = CONNECTED, d_buffer = []\<rparr>),
           nm_video_conn := Some (Dummy \<lparr>d_state = CONNECTED, d_buffer = []\<rparr>),
           nm_command_processor := Some ()\<rparr>"
  have s: "nm_state ?ini = DISCONNECTED" by (simp add: NetworkManager_init_def)
  have "snd (disconnect ?ini) = ?ini\<lparr>nm_reconnect_thread := None\<rparr>"
    using disconnect_idempotent [of ?ini] s by (simp add: NetworkManager_init_def)
  moreover have "fst (disconnect ?ini) = None" using disconnect_idempotent [of ?ini] by blast
  moreover have "?ini\<lparr>nm_reconnect_thread := None\<rparr> = ?ini" by (simp add: NetworkManager_init_def)
  ultimately have one: "disconnect ?ini = (None, ?ini)" by (simp add: prod_eq_iff)
  have two: "disconnect ?con = (None, ?ini\<lparr>nm_trace := [StoppedProcessor, Closed, Closed]\<rparr>)"
    by (simp add: disconnect_def NetworkManager_init_def stop_reconnect_thread_def
        disconnect_internal_def close_connections_def drop_command_processor_def
        drop_video_stream_def record_event_def)
  have three: "disconnect (?ini\<lparr>nm_trace := [StoppedProcessor, Closed, Closed]\<rparr>)
      = (None, ?ini\<lparr>nm_trace := [StoppedProcessor, Closed, Closed]\<rparr>)"
    using disconnect_idempotent [of ?con] two by simp
  show ?thesis using s one two three by simp
qed

text \<open>
  C6. Whenever the state is not CONNECTED, \<^verbatim>\<open>send_command\<close> raises ConnectionError and
  leaves the manager as it was, without calling the command processor (so without any
  I/O), and \<^verbatim>\<open>get_video_frame\<close> returns \<^verbatim>\<open>None\<close>. In state CONNECTED, \<^verbatim>\<open>send_command\<close>
  is the \<^verbatim>\<open>send_command\<close> of the active command processor and \<^verbatim>\<open>get_video_frame\<close> is the
  \<^verbatim>\<open>get_frame\<close> of the active video stream.
\<close>

theorem send_and_get_when_not_connected:
  "(nm_state nm \<noteq> CONNECTED \<longrightarrow>
      send_command CP command timeout nm = (Inl ConnectionError, nm)
      \<and> get_video_frame timeout nm = Returns None)
   \<and> (nm_state nm = CONNECTED \<and> nm_command_processor nm = Some cp \<longrightarrow>
        send_command CP command timeout nm =
          (fst (cp_send_command CP cp command timeout),
           nm\<lparr>nm_command_processor := Some (snd (cp_send_command CP cp command timeout))\<rparr>))
   \<and> (nm_state nm = CONNECTED \<and> nm_video_stream nm = Some vs \<longrightarrow>
        get_video_frame timeout nm = get_frame timeout vs)"
  by (simp add: send_command_def get_video_frame_def split: prod.splits)

text \<open>Witness: a manager that is not connected, and a connected one with its two
  channels.\<close>

theorem send_and_get_when_not_connected_witness:
  "send_command example_processor ''CMD_POWER'' None
      (NetworkManager_init DummyConnection_class 3 1)
     = (Inl ConnectionError, NetworkManager_init DummyConnection_class 3 1)
   \<and> get_video_frame (Some 1) (NetworkManager_init DummyConnection_class 3 1 :: unit NetworkManager)
     = Returns None
   \<and> fst (send_command example_processor ''CMD_POWER'' None
        ((NetworkManager_init DummyConnection_class 3 1)
           \<lparr>nm_state := CONNECTED, nm_command_processor := Some ()\<rparr>)) = Inr ()
   \<and> get_video_frame (Some 1)
        ((NetworkManager_init DummyConnection_class 3 1 :: unit NetworkManager)
           \<lparr>nm_state := CONNECTED,
            nm_video_stream := Some
              \<lparr>vs_conn = Dummy \<lparr>d_state = CONNECTED, d_buffer = []\<rparr>,
               vs_has_callback = False, vs_callback_frames = [], vs_running = True,
               vs_thread = True, vs_current_frame = Some [65], vs_frame_ready = True\<rparr>\<rparr>)
     = Returns (Some [65])"
proof -
  let ?ini = "NetworkManager_init DummyConnection_class 3 1 :: unit NetworkManager"
  let ?vs = "\<lparr>vs_conn = Dummy \<lparr>d_state = CONNECTED, d_buffer = []\<rparr>,
               vs_has_callback = False, vs_callback_frames = [], vs_running = True,
               vs_thread = True, vs_current_frame = Some [65], vs_frame_ready = True\<rparr>"
  have a: "nm_state ?ini \<noteq> CONNECTED" by (simp add: NetworkManager_init_def)
  have b: "nm_state (?ini\<lparr>nm_state := CONNECTED, nm_command_processor := Some ()\<rparr>) = CONNECTED
      \<and> nm_command_processor (?ini\<lparr>nm_state := CONNECTED, nm_command_processor := Some ()\<rparr>)
          = Some ()"
    by simp
  have c: "nm_state (?ini\<lparr>nm_state := CONNECTED, nm_video_stream := Some ?vs\<rparr>) = CONNECTED
      \<and> nm_video_stream (?ini\<lparr>nm_state := CONNECTED, nm_video_stream := Some ?vs\<rparr>) = Some ?vs"
    by simp
  have g: "get_frame (Some 1) ?vs = Returns (Some [65])" by (simp add: get_frame_def)
  have s: "fst (cp_send_command example_processor () ''CMD_POWER'' None) = Inr ()"
    by (simp add: example_processor_def)
  show ?thesis
    using send_and_get_when_not_connected
        [of ?ini example_processor "''CMD_POWER''" None "()" ?vs]
      send_and_get_when_not_connected
        [of ?ini example_processor "''CMD_POWER''" "Some 1" "()" ?vs]
      send_and_get_when_not_connected
        [of "?ini\<lparr>nm_state := CONNECTED, nm_command_processor := Some ()\<rparr>"
            example_processor "''CMD_POWER''" None "()" ?vs]
      send_and_get_when_not_connected
        [of "?ini\<lparr>nm_state := CONNECTED, nm_video_stream := Some ?vs\<rparr>"
            example_processor "''CMD_POWER''" "Some 1" "()" ?vs]
      a b c g s
    by simp
qed

section \<open>Properties of the command reader\<close>

lemma py_split_not_Nil [simp]: "py_split sep s \<noteq> []"
  by (induction s) (auto split: list.splits)

lemma py_split_no_sep: "sep \<notin> set w \<Longrightarrow> py_split sep w = [w]"
  by (induction w) auto

lemma py_split_append:
  "sep \<notin> set w \<Longrightarrow> py_split sep (w @ sep # rest) = w # py_split sep rest"
  by (induction w) (auto split: list.splits)

lemma py_split_join:
  "ws \<noteq> [] \<Longrightarrow> \<forall>w\<in>set ws. sep \<notin> set w \<Longrightarrow> py_split sep (py_join sep ws) = ws"
proof (induction sep ws rule: py_join.induct)
  case (1 sep)
  then show ?case by simp
next
  case (2 sep w)
  then show ?case by (simp add: py_split_no_sep)
next
  case (3 sep w v va)
  then show ?case by (simp add: py_split_append)
qed

lemma set_py_join: "set (py_join sep ws) \<subseteq> insert sep (\<Union>w\<in>set ws. set w)"
  by (induction sep ws rule: py_join.induct) auto

lemma py_split_wire_records:
  assumes "\<forall>r\<in>set rs. CHR 0x0A \<notin> set (py_join CHR ''#'' r)"
  shows "py_split (CHR 0x0A) (wire_records rs) = map (py_join CHR ''#'') rs @ [[]]"
  using assms
proof (induction rs)
  case Nil
  show ?case by (simp add: wire_records_def)
next
  case (Cons r rs)
  have "wire_records (r # rs) = py_join CHR ''#'' r @ CHR 0x0A # wire_records rs"
    by (simp add: wire_records_def)
  then show ?case using Cons by (simp add: py_split_append)
qed

lemma dispatch_printed:
  assumes "\<forall>l\<in>set ls. hd (py_split CHR ''#'' l) = CMD_SONIC cmd
              \<longrightarrow> 2 \<le> length (py_split CHR ''#'' l)"
  shows "fst (dispatch cmd ls w) = None
     \<and> printed (snd (dispatch cmd ls w)) = printed w @ map (py_split CHR ''#'') ls"
  using assms
proof (induction ls arbitrary: w)
  case Nil
  show ?case by simp
next
  case (Cons l ls)
  obtain d0 ds where d: "py_split CHR ''#'' l = d0 # ds"
    by (cases "py_split CHR ''#'' l") simp_all
  have rest: "\<forall>l\<in>set ls. hd (py_split CHR ''#'' l) = CMD_SONIC cmd
              \<longrightarrow> 2 \<le> length (py_split CHR ''#'' l)"
    using Cons.prems by simp
  note IH = Cons.IH [OF rest]
  show ?case
  proof (cases "d0 = CMD_SONIC cmd")
    case True
    then have "2 \<le> length (d0 # ds)" using Cons.prems d by simp
    then obtain d1 ds' where ds: "ds = d1 # ds'" by (cases ds) simp_all
    show ?thesis using True d ds IH by (simp add: Let_def)
  next
    case False
    show ?thesis using False d IH by (simp add: Let_def)
  qed
qed

lemma wire_record_line:
  assumes "wire_record_ok cmd r"
  shows "py_split CHR ''#'' (py_join CHR ''#'' r) = r"
    and "CHR 0x0A \<notin> set (py_join CHR ''#'' r)"
proof -
  have ne: "r \<noteq> []" and f: "\<forall>w\<in>set r. CHR ''#'' \<notin> set w" and g: "\<forall>w\<in>set r. CHR 0x0A \<notin> set w"
    using assms by (auto simp: wire_record_ok_def list_all_iff)
  show "py_split CHR ''#'' (py_join CHR ''#'' r) = r" using py_split_join [OF ne f] .
  show "CHR 0x0A \<notin> set (py_join CHR ''#'' r)"
    using set_py_join [of "CHR ''#''" r] g by auto
qed

lemma receive_one_chunk:
  assumes "rs \<noteq> []" and "list_all (wire_record_ok cmd) rs" and "CMD_SONIC cmd \<noteq> []"
  shows "fst (dispatch cmd (py_split (CHR 0x0A) (wire_records rs)) w) = None
     \<and> printed (snd (dispatch cmd (py_split (CHR 0x0A) (wire_records rs)) w))
         = printed w @ rs @ [[[]]]"
proof -
  have ok: "\<forall>r\<in>set rs. wire_record_ok cmd r" using assms(2) by (simp add: list_all_iff)
  have nl: "\<forall>r\<in>set rs. CHR 0x0A \<notin> set (py_join CHR ''#'' r)"
    using ok wire_record_line(2) by blast
  have sp: "py_split (CHR 0x0A) (wire_records rs) = map (py_join CHR ''#'') rs @ [[]]"
    using py_split_wire_records [OF nl] .
  have each: "\<forall>r\<in>set rs. py_split CHR ''#'' (py_join CHR ''#'' r) = r"
    using ok wire_record_line(1) by blast
  have rt: "map (py_split CHR ''#'') (map (py_join CHR ''#'') rs) = rs"
    using each by (induction rs) simp_all
  have cond: "\<forall>l\<in>set (map (py_join CHR ''#'') rs @ [[]]).
      hd (py_split CHR ''#'' l) = CMD_SONIC cmd \<longrightarrow> 2 \<le> length (py_split CHR ''#'' l)"
  proof
    fix l assume "l \<in> set (map (py_join CHR ''#'') rs @ [[]])"
    then consider r where "r \<in> set rs" "l = py_join CHR ''#'' r" | "l = []" by auto
    then show "hd (py_split CHR ''#'' l) = CMD_SONIC cmd \<longrightarrow> 2 \<le> length (py_split CHR ''#'' l)"
    proof cases
      case 1
      then show ?thesis using ok wire_record_line(1) [of cmd r]
        by (auto simp: wire_record_ok_def)
    next
      case 2
      then show ?thesis using assms(3) by auto
    qed
  qed
  show ?thesis
    using dispatch_printed [OF cond, of w] rt by (simp add: sp)
qed

lemma wire_records_not_Nil: "rs \<noteq> [] \<Longrightarrow> wire_records rs \<noteq> []"
  by (cases rs) (simp_all add: wire_records_def)

text \<open>
  C4 (counterexample). The reader fed \<^verbatim>\<open>"CMD1#a#"\<close> and then \<^verbatim>\<open>"b\\nCMD2#c\\n"\<close> by two
  receives parses four records, not two: the unterminated \<^verbatim>\<open>CMD1#a#\<close> of the first receive
  is parsed at once, nothing is kept for the next receive, and the second receive is
  parsed on its own.
\<close>

theorem receive_instruction_splits_each_receive_alone:
  "printed (snd (receive_instruction \<lparr>CMD_SONIC = ''CMD_SONIC'', CMD_POWER = ''CMD_POWER''\<rparr>
      [Text ''CMD1#a#'', Text (''b'' @ [CHR 0x0A] @ ''CMD2#c'' @ [CHR 0x0A])]
      \<lparr>tcp_flag = True, label_sonic = [], power_value = (PyInt 100, PyInt 100),
       printed = []\<rparr>))
   = [[''CMD1'', ''a'', ''''], [''b''], [''CMD2'', ''c''], ['''']]"
  by (simp add: Let_def)

text \<open>
  C4 (amended). Let the code \<^verbatim>\<open>CMD_SONIC\<close> be a text that is not empty, and let every
  receive hold one or more whole records, where each record has at least one field, no
  field contains \<^verbatim>\<open>#\<close> or a newline, and a record whose first field is \<^verbatim>\<open>CMD_SONIC\<close> has
  at least two fields. Then the command reader parses, receive after receive, exactly
  these records in wire order, each receive followed by one record with a single empty
  field (the empty text after the last newline), and it raises no exception.
\<close>

theorem receive_instruction_whole_records:
  assumes "list_all (\<lambda>rs. rs \<noteq> [] \<and> list_all (wire_record_ok cmd) rs) rss"
    and "CMD_SONIC cmd \<noteq> []"
  shows "fst (receive_instruction cmd (map (\<lambda>rs. Text (wire_records rs)) rss) w) = None
     \<and> printed (snd (receive_instruction cmd (map (\<lambda>rs. Text (wire_records rs)) rss) w))
         = printed w @ concat (map (\<lambda>rs. rs @ [[[]]]) rss)"
  using assms(1)
proof (induction rss arbitrary: w)
  case Nil
  show ?case by simp
next
  case (Cons rs rss)
  have ne: "rs \<noteq> []" and ok: "list_all (wire_record_ok cmd) rs"
    and rest: "list_all (\<lambda>rs. rs \<noteq> [] \<and> list_all (wire_record_ok cmd) rs) rss"
    using Cons.prems by simp_all
  obtain r w' where d: "dispatch cmd (py_split (CHR 0x0A) (wire_records rs)) w = (r, w')"
    by (cases "dispatch cmd (py_split (CHR 0x0A) (wire_records rs)) w")
  have r: "r = None" and p: "printed w' = printed w @ rs @ [[[]]]"
    using receive_one_chunk [OF ne ok assms(2), of w] d by simp_all
  show ?case
    using Cons.IH [OF rest, of w'] d r p wire_records_not_Nil [OF ne]
    by (simp add: Let_def)
qed

text \<open>Witness: a receive with a SONIC and a POWER record, then a receive with one
  record.\<close>

theorem receive_instruction_whole_records_witness:
  "list_all (\<lambda>rs. rs \<noteq> []
        \<and> list_all (wire_record_ok \<lparr>CMD_SONIC = ''CMD_SONIC'', CMD_POWER = ''CMD_POWER''\<rparr>) rs)
      [[[''CMD_SONIC'', ''12''], [''CMD_POWER'', ''7.4'', ''8.1'']], [[''CMD2'', ''c'']]]
   \<and> wire_records [[''CMD_SONIC'', ''12''], [''CMD_POWER'', ''7.4'', ''8.1'']]
       = ''CMD_SONIC#12'' @ [CHR 0x0A] @ ''CMD_POWER#7.4#8.1'' @ [CHR 0x0A]
   \<and> printed (snd (receive_instruction \<lparr>CMD_SONIC = ''CMD_SONIC'', CMD_POWER = ''CMD_POWER''\<rparr>
        (map (\<lambda>rs. Text (wire_records rs))
           [[[''CMD_SONIC'', ''12''], [''CMD_POWER'', ''7.4'', ''8.1'']], [[''CMD2'', ''c'']]])
        \<lparr>tcp_flag = True, label_sonic = [], power_value = (PyInt 100, PyInt 100),
         printed = []\<rparr>))
     = [[''CMD_SONIC'', ''12''], [''CMD_POWER'', ''7.4'', ''8.1''], [''''], [''CMD2'', ''c''], ['''']]"
proof -
  let ?cmd = "\<lparr>CMD_SONIC = ''CMD_SONIC'', CMD_POWER = ''CMD_POWER''\<rparr>"
  let ?rss = "[[[''CMD_SONIC'', ''12''], [''CMD_POWER'', ''7.4'', ''8.1'']], [[''CMD2'', ''c'']]]"
  have h: "list_all (\<lambda>rs. rs \<noteq> [] \<and> list_all (wire_record_ok ?cmd) rs) ?rss"
    by (simp add: wire_record_ok_def)
  have n: "CMD_SONIC ?cmd \<noteq> []" by simp
  have e: "wire_records [[''CMD_SONIC'', ''12''], [''CMD_POWER'', ''7.4'', ''8.1'']]
       = ''CMD_SONIC#12'' @ [CHR 0x0A] @ ''CMD_POWER#7.4#8.1'' @ [CHR 0x0A]"
    by (simp add: wire_records_def)
  show ?thesis
    using receive_instruction_whole_records
      [OF h n, of "\<lparr>tcp_flag = True, label_sonic = [], power_value = (PyInt 100, PyInt 100),
         printed = []\<rparr>"] h e
    by simp
qed

end
